theory Spec2Isabelle
  imports Complex_Main "HOL-Library.Log_Nat"
begin

section \<open>Number values\<close>

text \<open>
  Every quantity of the calculator has the TypeScript type \<open>number\<close>: an IEEE 754
  binary64 value. A number is NaN, an infinity with its sign, or a finite value given by
  its sign bit (\<open>True\<close> for negative) and its magnitude, a non-negative rational; the two
  zeros are \<open>Finite False 0\<close> and \<open>Finite True 0\<close>. The operators \<open>*\<close>, \<open>/\<close>, \<open>+\<close> and
  \<open>-\<close> compute the exact rational result and round it to the nearest representable
  magnitude, ties to the even significand; a result of \<open>2 ^ 1024\<close> or more becomes an
  infinity, and NaN arises from \<open>0 * Infinity\<close>, \<open>0 / 0\<close>, \<open>Infinity / Infinity\<close> and
  \<open>Infinity - Infinity\<close>. The predicate \<open>valid\<close> picks, among the terms \<open>Finite s m\<close>,
  those whose magnitude binary64 represents; the operations never leave them.
\<close>

datatype number = NaN | Infinity bool | Finite bool rat

definition pow2 :: "int \<Rightarrow> rat" where
  "pow2 e = (if 0 \<le> e then 2 ^ nat e else 1 / 2 ^ nat (- e))"

text \<open>\<open>flog2 q\<close> is the binary exponent of a positive rational: \<open>2 ^ e \<le> q < 2 ^ (e + 1)\<close>.\<close>

definition flog2 :: "rat \<Rightarrow> int" where
  "flog2 q = (if 1 \<le> q then bitlen \<lfloor>q\<rfloor> - 1 else - bitlen (\<lceil>1 / q\<rceil> - 1))"

text \<open>
  The spacing of the binary64 values around \<open>q\<close>: 52 fraction bits below the exponent,
  and the exponent never below \<open>-1022\<close> (the subnormal range has the spacing \<open>2 ^ -1074\<close>).
\<close>

definition ulp :: "rat \<Rightarrow> rat" where
  "ulp q = pow2 (max (flog2 q) (- 1022) - 52)"

definition round_even :: "rat \<Rightarrow> int" where
  "round_even q = (let n = \<lfloor>q\<rfloor>; f = q - of_int n in
     if f < 1 / 2 then n else if 1 / 2 < f then n + 1 else if even n then n else n + 1)"

definition rnd :: "rat \<Rightarrow> rat" where
  "rnd q = of_int (round_even (q / ulp q)) * ulp q"

text \<open>The number of sign \<open>s\<close> nearest to the magnitude \<open>q\<close>; it overflows to an infinity.\<close>

definition to_number :: "bool \<Rightarrow> rat \<Rightarrow> number" where
  "to_number s q = (let r = rnd q in if 2 ^ 1024 \<le> r then Infinity s else Finite s r)"

text \<open>The value of a numeric literal of the source text.\<close>

definition lit :: "rat \<Rightarrow> number" where
  "lit q = (if q < 0 then to_number True (- q) else to_number False q)"

definition sval :: "bool \<Rightarrow> rat \<Rightarrow> rat" where
  "sval s m = (if s then - m else m)"

text \<open>The magnitudes that binary64 represents, and the numbers built from them.\<close>

definition is_double :: "rat \<Rightarrow> bool" where
  "is_double m \<longleftrightarrow> 0 \<le> m \<and> m < 2 ^ 1024 \<and> of_int \<lfloor>m / ulp m\<rfloor> = m / ulp m"

fun valid :: "number \<Rightarrow> bool" where
  "valid NaN = True"
| "valid (Infinity s) = True"
| "valid (Finite s m) = is_double m"

fun fmul :: "number \<Rightarrow> number \<Rightarrow> number" where
  "fmul NaN y = NaN"
| "fmul x NaN = NaN"
| "fmul (Infinity s) (Infinity t) = Infinity (s \<noteq> t)"
| "fmul (Infinity s) (Finite t n) = (if n = 0 then NaN else Infinity (s \<noteq> t))"
| "fmul (Finite s m) (Infinity t) = (if m = 0 then NaN else Infinity (s \<noteq> t))"
| "fmul (Finite s m) (Finite t n) = to_number (s \<noteq> t) (m * n)"

fun fdiv :: "number \<Rightarrow> number \<Rightarrow> number" where
  "fdiv NaN y = NaN"
| "fdiv x NaN = NaN"
| "fdiv (Infinity s) (Infinity t) = NaN"
| "fdiv (Infinity s) (Finite t n) = Infinity (s \<noteq> t)"
| "fdiv (Finite s m) (Infinity t) = Finite (s \<noteq> t) 0"
| "fdiv (Finite s m) (Finite t n) =
     (if n = 0 then (if m = 0 then NaN else Infinity (s \<noteq> t))
      else to_number (s \<noteq> t) (m / n))"

fun fadd :: "number \<Rightarrow> number \<Rightarrow> number" where
  "fadd NaN y = NaN"
| "fadd x NaN = NaN"
| "fadd (Infinity s) (Infinity t) = (if s = t then Infinity s else NaN)"
| "fadd (Infinity s) (Finite t n) = Infinity s"
| "fadd (Finite s m) (Infinity t) = Infinity t"
| "fadd (Finite s m) (Finite t n) =
     (let q = sval s m + sval t n in
      if q = 0 then Finite (s \<and> t) 0 else to_number (q < 0) \<bar>q\<bar>)"

fun fneg :: "number \<Rightarrow> number" where
  "fneg NaN = NaN"
| "fneg (Infinity s) = Infinity (\<not> s)"
| "fneg (Finite s m) = Finite (\<not> s) m"

definition fsub :: "number \<Rightarrow> number \<Rightarrow> number" where
  "fsub x y = fadd x (fneg y)"

text \<open>\<open>Math.abs\<close>.\<close>

fun fabs :: "number \<Rightarrow> number" where
  "fabs NaN = NaN"
| "fabs (Infinity s) = Infinity False"
| "fabs (Finite s m) = Finite False m"

text \<open>The comparisons \<open><=\<close>, \<open><\<close> and \<open>===\<close> on numbers: false whenever an operand is NaN,
  and blind to the sign of a zero.\<close>

fun fle :: "number \<Rightarrow> number \<Rightarrow> bool" where
  "fle NaN y = False"
| "fle x NaN = False"
| "fle (Infinity s) (Infinity t) = (s \<or> \<not> t)"
| "fle (Infinity s) (Finite t n) = s"
| "fle (Finite s m) (Infinity t) = (\<not> t)"
| "fle (Finite s m) (Finite t n) = (sval s m \<le> sval t n)"

fun flt :: "number \<Rightarrow> number \<Rightarrow> bool" where
  "flt NaN y = False"
| "flt x NaN = False"
| "flt (Infinity s) (Infinity t) = (s \<and> \<not> t)"
| "flt (Infinity s) (Finite t n) = s"
| "flt (Finite s m) (Infinity t) = (\<not> t)"
| "flt (Finite s m) (Finite t n) = (sval s m < sval t n)"

fun feq :: "number \<Rightarrow> number \<Rightarrow> bool" where
  "feq (Infinity s) (Infinity t) = (s = t)"
| "feq (Finite s m) (Finite t n) = (sval s m = sval t n)"
| "feq x y = False"

text \<open>\<open>Number.isFinite\<close>: neither NaN nor an infinity.\<close>

fun is_finite :: "number \<Rightarrow> bool" where
  "is_finite (Finite s m) = True"
| "is_finite x = False"

text \<open>
  Auxiliary predicates. \<open>not_negative\<close> holds of NaN, of positive infinity, of both zeros
  and of the positive finite numbers. \<open>exact_mul x y\<close> and \<open>exact_add x y\<close> say that both
  operands are finite and that the exact product, or sum, is itself a binary64 value, so
  that \<open>x * y\<close>, or \<open>x + y\<close>, is computed without rounding.
\<close>

fun not_negative :: "number \<Rightarrow> bool" where
  "not_negative NaN = True"
| "not_negative (Infinity s) = (\<not> s)"
| "not_negative (Finite s m) = (0 \<le> m \<and> (m = 0 \<or> \<not> s))"

fun exact_mul :: "number \<Rightarrow> number \<Rightarrow> bool" where
  "exact_mul (Finite s m) (Finite t n) = is_double (m * n)"
| "exact_mul x y = False"

fun exact_add :: "number \<Rightarrow> number \<Rightarrow> bool" where
  "exact_add (Finite s m) (Finite t n) = is_double \<bar>sval s m + sval t n\<bar>"
| "exact_add x y = False"

section \<open>The calculator\<close>

record ROIParams =
  webWidth :: number
  jobsPerShift :: number
  shiftsPerDay :: number
  daysPerYear :: number
  stopsPerJobBaseline :: number
  reductionPercent :: number
  wastePerStopM :: number
  speedMPerMin :: number
  uptimePercent :: number
  hoursPerShift :: number
  substratePrice :: number
  haasPrice :: number

record ROIResult =
  jobsPerDay :: number
  jobsPerYear :: number
  m2PerStop :: number
  m2CalagePerYear :: number
  printedLengthPerYear :: number
  m2ThreeMmPerYear :: number
  euroCalage :: number
  euroThreeMm :: number
  euroTotal :: number
  euroNet :: number

text \<open>
  \<open>computeROI\<close>, statement by statement. TypeScript types are structural, so the argument
  is any object that has the twelve fields; the function reads nothing else.
\<close>

definition computeROI :: "'a ROIParams_scheme \<Rightarrow> ROIResult" where
  "computeROI p =
    (let jobsPerDay' = fmul (jobsPerShift p) (shiftsPerDay p);
         jobsPerYear' = fmul jobsPerDay' (daysPerYear p);
         stopsAvoidedPerJob = fdiv (fmul (stopsPerJobBaseline p) (reductionPercent p)) (lit 100);
         m2PerStop' = fmul (webWidth p) (wastePerStopM p);
         m2CalagePerYear' = fmul (fmul m2PerStop' stopsAvoidedPerJob) jobsPerYear';
         minutesPerDay = fmul (fmul (hoursPerShift p) (lit 60)) (shiftsPerDay p);
         printedLengthPerDay =
           fmul (fmul (speedMPerMin p) (fdiv (uptimePercent p) (lit 100))) minutesPerDay;
         printedLengthPerYear' = fmul printedLengthPerDay (daysPerYear p);
         m2ThreeMmPerYear' = fmul (lit (3 / 1000)) printedLengthPerYear';
         euroCalage' = fmul m2CalagePerYear' (substratePrice p);
         euroThreeMm' = fmul m2ThreeMmPerYear' (substratePrice p);
         euroTotal' = fadd euroCalage' euroThreeMm';
         euroNet' = fsub euroTotal' (haasPrice p)
     in \<lparr> jobsPerDay = jobsPerDay',
          jobsPerYear = jobsPerYear',
          m2PerStop = m2PerStop',
          m2CalagePerYear = m2CalagePerYear',
          printedLengthPerYear = printedLengthPerYear',
          m2ThreeMmPerYear = m2ThreeMmPerYear',
          euroCalage = euroCalage',
          euroThreeMm = euroThreeMm',
          euroTotal = euroTotal',
          euroNet = euroNet' \<rparr>)"

text \<open>
  The local constants of \<open>computeROI\<close> that are not returned, as functions of the
  argument: the right-hand sides of their declarations.
\<close>

definition stopsAvoidedPerJob :: "'a ROIParams_scheme \<Rightarrow> number" where
  "stopsAvoidedPerJob p = fdiv (fmul (stopsPerJobBaseline p) (reductionPercent p)) (lit 100)"

definition minutesPerDay :: "'a ROIParams_scheme \<Rightarrow> number" where
  "minutesPerDay p = fmul (fmul (hoursPerShift p) (lit 60)) (shiftsPerDay p)"

definition printedLengthPerDay :: "'a ROIParams_scheme \<Rightarrow> number" where
  "printedLengthPerDay p =
    fmul (fmul (speedMPerMin p) (fdiv (uptimePercent p) (lit 100))) (minutesPerDay p)"

text \<open>The own properties of a parameter object and of the returned object, in the order
  of the interface declarations and of the returned object literal.\<close>

definition ROIParams_entries :: "'a ROIParams_scheme \<Rightarrow> (string \<times> number) list" where
  "ROIParams_entries p =
    [(''webWidth'', webWidth p), (''jobsPerShift'', jobsPerShift p),
     (''shiftsPerDay'', shiftsPerDay p), (''daysPerYear'', daysPerYear p),
     (''stopsPerJobBaseline'', stopsPerJobBaseline p),
     (''reductionPercent'', reductionPercent p), (''wastePerStopM'', wastePerStopM p),
     (''speedMPerMin'', speedMPerMin p), (''uptimePercent'', uptimePercent p),
     (''hoursPerShift'', hoursPerShift p), (''substratePrice'', substratePrice p),
     (''haasPrice'', haasPrice p)]"

definition ROIResult_entries :: "ROIResult \<Rightarrow> (string \<times> number) list" where
  "ROIResult_entries r =
    [(''jobsPerDay'', jobsPerDay r), (''jobsPerYear'', jobsPerYear r),
     (''m2PerStop'', m2PerStop r), (''m2CalagePerYear'', m2CalagePerYear r),
     (''printedLengthPerYear'', printedLengthPerYear r),
     (''m2ThreeMmPerYear'', m2ThreeMmPerYear r), (''euroCalage'', euroCalage r),
     (''euroThreeMm'', euroThreeMm r), (''euroTotal'', euroTotal r),
     (''euroNet'', euroNet r)]"

section \<open>The self-tests\<close>

definition approxEqual :: "number \<Rightarrow> number \<Rightarrow> number \<Rightarrow> bool" where
  "approxEqual actual expected tolerancePct =
    (let tol = fmul (fabs expected) tolerancePct
     in fle (fabs (fsub actual expected)) tol)"

text \<open>The default of the third parameter, \<open>tolerancePct = 0.001\<close>.\<close>

definition approxEqual_default :: "number \<Rightarrow> number \<Rightarrow> bool" where
  "approxEqual_default actual expected = approxEqual actual expected (lit (1 / 1000))"

definition baselineParams :: ROIParams where
  "baselineParams =
    \<lparr> webWidth = lit (33 / 100),
      jobsPerShift = lit 6,
      shiftsPerDay = lit 2,
      daysPerYear = lit 250,
      stopsPerJobBaseline = lit 6,
      reductionPercent = lit 50,
      wastePerStopM = lit 100,
      speedMPerMin = lit 165,
      uptimePercent = lit 60,
      hoursPerShift = lit 8,
      substratePrice = lit (6 / 10),
      haasPrice = lit 20000 \<rparr>"

text \<open>The two literal formulas of \<open>TestPanel\<close>, with the grouping of the source text.\<close>

definition expected_m2CalagePerYear :: number where
  "expected_m2CalagePerYear =
    fmul (fmul (fmul (lit (33 / 100)) (lit 100)) (fmul (lit 6) (lit (5 / 10))))
         (fmul (fmul (lit 6) (lit 2)) (lit 250))"

definition expected_m2ThreeMmPerYear :: number where
  "expected_m2ThreeMmPerYear =
    fmul (lit (3 / 1000))
         (fmul (fmul (fmul (lit 165) (lit (6 / 10)))
                     (fmul (fmul (lit 8) (lit 60)) (lit 2)))
               (lit 250))"

text \<open>The \<open>pass\<close> flags of the list \<open>tests\<close>, in its order.\<close>

definition TestPanel_tests :: "bool list" where
  "TestPanel_tests =
    (let b = computeROI baselineParams
     in [approxEqual_default (m2CalagePerYear b) expected_m2CalagePerYear,
         approxEqual_default (m2ThreeMmPerYear b) expected_m2ThreeMmPerYear])"

section \<open>Further inputs\<close>

text \<open>
  The baseline with a web width of 0.2 m, on which scaling the width by 3 rounds; and the
  baseline with a web width of 0.5 m and a substrate price of 0.5, on which every product
  and sum of the calculation is exact.
\<close>

definition roundingParams :: ROIParams where
  "roundingParams = baselineParams\<lparr>webWidth := lit (2 / 10)\<rparr>"

definition exactParams :: ROIParams where
  "exactParams = baselineParams\<lparr>webWidth := lit (5 / 10), substratePrice := lit (5 / 10)\<rparr>"

section \<open>The source text of \<open>computeROI\<close>\<close>

text \<open>
  The function as a program text, for the properties that are about its execution rather
  than about the values it computes. The fragment of the language is the one the function
  is written in: numeric literals, identifiers, property reads, the four arithmetic
  operators, \<open>const\<close> declarations and the \<open>return\<close> of an object literal.
\<close>

datatype binop = Star | Slash | PlusSign | MinusSign

datatype expr =
    Literal rat
  | Ident string
  | Member expr string
  | Binary binop expr expr

datatype stmt =
    Const string expr
  | Return "(string \<times> expr) list"

datatype jsval = Undefined | Number number | Object "(string \<times> jsval) list"

text \<open>
  The bindings of the function's own scope, the innermost first: a parameter or a
  \<open>const\<close> is bound to \<open>Some v\<close> once it has its value, and a \<open>const\<close> is bound to
  \<open>None\<close> between the entry into the function and its declaration. Everything outside
  the function (the bindings of the module and the global object) is \<open>outer\<close>: an
  identifier that the function's scope does not bind is looked up there.
\<close>

type_synonym scope = "(string \<times> jsval option) list"
type_synonym outer = "string \<Rightarrow> jsval option"

text \<open>The first binding of a name in a list of bindings.\<close>

fun lookup :: "(string \<times> 'a) list \<Rightarrow> string \<Rightarrow> 'a option" where
  "lookup [] x = None"
| "lookup ((k, v) # l) x = (if k = x then Some v else lookup l x)"

text \<open>
  The conversion of an operand to a number: \<open>undefined\<close> converts to NaN; the
  conversion of an object is outside the fragment.
\<close>

fun to_num :: "jsval \<Rightarrow> number option" where
  "to_num Undefined = Some NaN"
| "to_num (Number n) = Some n"
| "to_num (Object ps) = None"

fun apply_binop :: "binop \<Rightarrow> number \<Rightarrow> number \<Rightarrow> number" where
  "apply_binop Star x y = fmul x y"
| "apply_binop Slash x y = fdiv x y"
| "apply_binop PlusSign x y = fadd x y"
| "apply_binop MinusSign x y = fsub x y"

text \<open>
  The value of an expression, \<open>None\<close> when its evaluation throws (a \<open>const\<close> read before
  its declaration, an identifier bound nowhere, a property read on \<open>undefined\<close>) or
  leaves the fragment. A property that an object does not have reads as \<open>undefined\<close>.
\<close>

fun eval :: "outer \<Rightarrow> scope \<Rightarrow> expr \<Rightarrow> jsval option" where
  "eval g l (Literal q) = Some (Number (lit q))"
| "eval g l (Ident x) =
    (case lookup l x of
       Some b \<Rightarrow> b
     | None \<Rightarrow> g x)"
| "eval g l (Member e f) =
    (case eval g l e of
       Some (Object ps) \<Rightarrow>
         (case lookup ps f of Some v \<Rightarrow> Some v | None \<Rightarrow> Some Undefined)
     | _ \<Rightarrow> None)"
| "eval g l (Binary b e1 e2) =
    (case eval g l e1 of
       Some v1 \<Rightarrow>
         (case eval g l e2 of
            Some v2 \<Rightarrow>
              (case (to_num v1, to_num v2) of
                 (Some x, Some y) \<Rightarrow> Some (Number (apply_binop b x y))
               | _ \<Rightarrow> None)
          | None \<Rightarrow> None)
     | None \<Rightarrow> None)"

text \<open>The properties of an object literal, evaluated in their order.\<close>

fun eval_properties :: "outer \<Rightarrow> scope \<Rightarrow> (string \<times> expr) list \<Rightarrow> (string \<times> jsval) list option" where
  "eval_properties g l [] = Some []"
| "eval_properties g l ((k, e) # ps) =
    (case eval g l e of
       Some v \<Rightarrow>
         (case eval_properties g l ps of Some r \<Rightarrow> Some ((k, v) # r) | None \<Rightarrow> None)
     | None \<Rightarrow> None)"

text \<open>
  The statements of a function body; the value is that of the \<open>return\<close> statement, and
  a body that ends without one returns \<open>undefined\<close>.
\<close>

fun exec :: "outer \<Rightarrow> scope \<Rightarrow> stmt list \<Rightarrow> jsval option" where
  "exec g l [] = Some Undefined"
| "exec g l (Const x e # ss) =
    (case eval g l e of Some v \<Rightarrow> exec g ((x, Some v) # l) ss | None \<Rightarrow> None)"
| "exec g l (Return ps # ss) =
    (case eval_properties g l ps of Some r \<Rightarrow> Some (Object r) | None \<Rightarrow> None)"

fun declared :: "stmt list \<Rightarrow> string list" where
  "declared [] = []"
| "declared (Const x e # ss) = x # declared ss"
| "declared (Return ps # ss) = declared ss"

text \<open>
  A call in the outer environment \<open>g\<close>: the parameters are bound to the arguments
  (\<open>undefined\<close> for a missing one), the constants of the body are in scope without a
  value, and the body runs.
\<close>

definition call :: "outer \<Rightarrow> string list \<times> stmt list \<Rightarrow> jsval list \<Rightarrow> jsval option" where
  "call g f args =
    (case f of (params, body) \<Rightarrow>
       exec g
         (zip params (map Some (args @ replicate (length params - length args) Undefined))
          @ map (\<lambda>x. (x, None)) (declared body))
         body)"

text \<open>The declaration \<open>function computeROI(p: ROIParams): ROIResult\<close>, statement by statement.\<close>

definition computeROI_source :: "string list \<times> stmt list" where
  "computeROI_source =
    ([''p''],
     [Const ''jobsPerDay''
        (Binary Star (Member (Ident ''p'') ''jobsPerShift'')
                     (Member (Ident ''p'') ''shiftsPerDay'')),
      Const ''jobsPerYear''
        (Binary Star (Ident ''jobsPerDay'') (Member (Ident ''p'') ''daysPerYear'')),
      Const ''stopsAvoidedPerJob''
        (Binary Slash
          (Binary Star (Member (Ident ''p'') ''stopsPerJobBaseline'')
                       (Member (Ident ''p'') ''reductionPercent''))
          (Literal 100)),
      Const ''m2PerStop''
        (Binary Star (Member (Ident ''p'') ''webWidth'')
                     (Member (Ident ''p'') ''wastePerStopM'')),
      Const ''m2CalagePerYear''
        (Binary Star (Binary Star (Ident ''m2PerStop'') (Ident ''stopsAvoidedPerJob''))
                     (Ident ''jobsPerYear'')),
      Const ''minutesPerDay''
        (Binary Star (Binary Star (Member (Ident ''p'') ''hoursPerShift'') (Literal 60))
                     (Member (Ident ''p'') ''shiftsPerDay'')),
      Const ''printedLengthPerDay''
        (Binary Star
          (Binary Star (Member (Ident ''p'') ''speedMPerMin'')
                       (Binary Slash (Member (Ident ''p'') ''uptimePercent'') (Literal 100)))
          (Ident ''minutesPerDay'')),
      Const ''printedLengthPerYear''
        (Binary Star (Ident ''printedLengthPerDay'') (Member (Ident ''p'') ''daysPerYear'')),
      Const ''m2ThreeMmPerYear''
        (Binary Star (Literal (3 / 1000)) (Ident ''printedLengthPerYear'')),
      Const ''euroCalage''
        (Binary Star (Ident ''m2CalagePerYear'') (Member (Ident ''p'') ''substratePrice'')),
      Const ''euroThreeMm''
        (Binary Star (Ident ''m2ThreeMmPerYear'') (Member (Ident ''p'') ''substratePrice'')),
      Const ''euroTotal'' (Binary PlusSign (Ident ''euroCalage'') (Ident ''euroThreeMm'')),
      Const ''euroNet''
        (Binary MinusSign (Ident ''euroTotal'') (Member (Ident ''p'') ''haasPrice'')),
      Return
        [(''jobsPerDay'', Ident ''jobsPerDay''),
         (''jobsPerYear'', Ident ''jobsPerYear''),
         (''m2PerStop'', Ident ''m2PerStop''),
         (''m2CalagePerYear'', Ident ''m2CalagePerYear''),
         (''printedLengthPerYear'', Ident ''printedLengthPerYear''),
         (''m2ThreeMmPerYear'', Ident ''m2ThreeMmPerYear''),
         (''euroCalage'', Ident ''euroCalage''),
         (''euroThreeMm'', Ident ''euroThreeMm''),
         (''euroTotal'', Ident ''euroTotal''),
         (''euroNet'', Ident ''euroNet'')]])"

text \<open>A parameter object and a returned record as values of the language.\<close>

definition object_of :: "(string \<times> number) list \<Rightarrow> jsval" where
  "object_of ps = Object (map (\<lambda>(k, v). (k, Number v)) ps)"

section \<open>Rounding\<close>

text \<open>
  Rounding keeps zero and the sign, and leaves a binary64 magnitude as it is: an
  operation whose exact result is representable returns that result.
\<close>

lemma pow2_pos: "0 < pow2 e"
  by (simp add: pow2_def)

lemma ulp_pos: "0 < ulp q"
  by (simp add: ulp_def pow2_pos)

lemma round_even_of_int: "round_even (of_int n) = n"
  by (simp add: round_even_def)

lemma round_even_nonneg: "0 \<le> q \<Longrightarrow> 0 \<le> round_even q"
  by (simp add: round_even_def Let_def)

lemma rnd_zero: "rnd 0 = 0"
  using round_even_of_int [of 0] by (simp add: rnd_def)

lemma rnd_nonneg: "0 \<le> q \<Longrightarrow> 0 \<le> rnd q"
  using ulp_pos [of q] by (simp add: rnd_def round_even_nonneg)

lemma rnd_is_double:
  assumes "is_double m"
  shows "rnd m = m"
proof -
  from assms have "of_int \<lfloor>m / ulp m\<rfloor> = m / ulp m"
    unfolding is_double_def by blast
  then have "m / ulp m = of_int \<lfloor>m / ulp m\<rfloor>"
    by (rule sym)
  then have "round_even (m / ulp m) = \<lfloor>m / ulp m\<rfloor>"
    using round_even_of_int [of "\<lfloor>m / ulp m\<rfloor>"] by simp
  then have "rnd m = (m / ulp m) * ulp m"
    using \<open>m / ulp m = of_int \<lfloor>m / ulp m\<rfloor>\<close> by (simp add: rnd_def)
  then show ?thesis
    using ulp_pos [of m] by simp
qed

lemma to_number_zero: "to_number s 0 = Finite s 0"
  by (simp add: to_number_def rnd_zero)

lemma to_number_is_double: "is_double m \<Longrightarrow> to_number s m = Finite s m"
  by (simp add: to_number_def rnd_is_double is_double_def)

section \<open>Binary exponents and the rounding error\<close>

text \<open>
  \<open>flog2\<close> is the binary exponent: \<open>2 ^ flog2 q \<le> q < 2 ^ (flog2 q + 1)\<close> for every
  positive \<open>q\<close>. Rounding moves a magnitude by at most half the spacing \<open>ulp q\<close>.
\<close>

lemma pow2_powi: "pow2 e = 2 powi e"
  by (simp add: pow2_def power_int_def field_simps)

lemma pow2_less: "a < b \<Longrightarrow> pow2 a < pow2 b"
  by (simp add: pow2_powi power_int_strict_increasing)

lemma pow2_le: "a \<le> b \<Longrightarrow> pow2 a \<le> pow2 b"
  by (simp add: pow2_powi power_int_increasing)

lemma pow2_add: "pow2 (a + b) = pow2 a * pow2 b"
  by (simp add: pow2_powi power_int_add)

lemma pow2_minus: "pow2 (- e) = 1 / pow2 e"
  by (simp add: pow2_powi power_int_minus_divide)

lemma pow2_nat: "pow2 (int n) = 2 ^ n"
  by (simp add: pow2_powi)

lemma bitlen_pos: "0 < n \<Longrightarrow> 1 \<le> bitlen n"
  using bitlen_eq_zero_iff [of n] bitlen_nonneg [of n] by linarith

lemma flog2_bounds:
  assumes "0 < q"
  shows "pow2 (flog2 q) \<le> q" and "q < pow2 (flog2 q + 1)"
proof -
  have "pow2 (flog2 q) \<le> q \<and> q < pow2 (flog2 q + 1)"
  proof (cases "1 \<le> q")
    case True
    define n where "n = \<lfloor>q\<rfloor>"
    have n: "0 < n"
      using True by (simp add: n_def)
    then have b: "1 \<le> bitlen n"
      by (rule bitlen_pos)
    from bitlen_bounds [OF n]
    have lo: "2 ^ nat (bitlen n - 1) \<le> n" and hi: "n < 2 ^ nat (bitlen n)"
      by simp_all
    have e: "flog2 q = bitlen n - 1"
      using True by (simp add: flog2_def n_def)
    have "pow2 (bitlen n - 1) = of_int (2 ^ nat (bitlen n - 1))"
      using b by (simp add: pow2_def)
    also have "\<dots> \<le> of_int n"
      using lo by (simp only: of_int_le_iff)
    also have "\<dots> \<le> q"
      by (simp add: n_def)
    finally have 1: "pow2 (flog2 q) \<le> q"
      by (simp only: e)
    have "q < of_int (n + 1)"
      unfolding n_def by (simp; linarith)
    also have "\<dots> \<le> of_int (2 ^ nat (bitlen n))"
      using hi by (simp only: of_int_le_iff)
    also have "\<dots> = pow2 (bitlen n)"
      using b by (simp add: pow2_def)
    finally have 2: "q < pow2 (flog2 q + 1)"
      by (simp add: e)
    from 1 2 show ?thesis ..
  next
    case False
    define x where "x = 1 / q"
    define m where "m = \<lceil>x\<rceil> - 1"
    have x: "1 < x"
      using assms False by (simp add: x_def)
    then have m: "0 < m"
      by (simp add: m_def less_ceiling_iff)
    then have b: "1 \<le> bitlen m"
      by (rule bitlen_pos)
    from bitlen_bounds [OF m]
    have lo: "2 ^ nat (bitlen m - 1) \<le> m" and hi: "m < 2 ^ nat (bitlen m)"
      by simp_all
    have e: "flog2 q = - bitlen m"
      using False by (simp add: flog2_def m_def x_def)
    have "x \<le> of_int (m + 1)"
      unfolding m_def by simp
    also have "\<dots> \<le> of_int (2 ^ nat (bitlen m))"
      using hi by (simp only: of_int_le_iff)
    also have "\<dots> = pow2 (bitlen m)"
      using b by (simp add: pow2_def)
    finally have "1 / q \<le> pow2 (bitlen m)"
      by (simp only: x_def)
    then have 1: "pow2 (flog2 q) \<le> q"
      using assms pow2_pos [of "bitlen m"] by (simp add: e pow2_minus field_simps)
    have "pow2 (bitlen m - 1) = of_int (2 ^ nat (bitlen m - 1))"
      using b by (simp add: pow2_def)
    also have "\<dots> \<le> of_int m"
      using lo by (simp only: of_int_le_iff)
    also have "\<dots> < x"
      unfolding m_def by (simp; linarith)
    finally have "pow2 (bitlen m - 1) < 1 / q"
      by (simp only: x_def)
    then have "q < 1 / pow2 (bitlen m - 1)"
      using assms pow2_pos [of "bitlen m - 1"] by (simp add: field_simps)
    moreover have "pow2 (flog2 q + 1) = 1 / pow2 (bitlen m - 1)"
      using pow2_minus [of "bitlen m - 1"] by (simp add: e)
    ultimately have 2: "q < pow2 (flog2 q + 1)"
      by (simp only:)
    from 1 2 show ?thesis ..
  qed
  then show "pow2 (flog2 q) \<le> q" and "q < pow2 (flog2 q + 1)"
    by simp_all
qed

lemma flog2_unique:
  assumes "pow2 e \<le> q" and "q < pow2 (e + 1)"
  shows "flog2 q = e"
proof -
  from assms(1) have q: "0 < q"
    using pow2_pos [of e] by simp
  have "pow2 (flog2 q) < pow2 (e + 1)"
    using flog2_bounds(1) [OF q] assms(2) by simp
  then have "flog2 q < e + 1"
    using pow2_le [of "e + 1" "flog2 q"] by (cases "flog2 q < e + 1") simp_all
  moreover have "pow2 e < pow2 (flog2 q + 1)"
    using flog2_bounds(2) [OF q] assms(1) by simp
  then have "e < flog2 q + 1"
    using pow2_le [of "flog2 q + 1" e] by (cases "e < flog2 q + 1") simp_all
  ultimately show ?thesis
    by simp
qed

lemma round_even_error: "\<bar>of_int (round_even x) - x\<bar> \<le> 1 / 2"
proof -
  have "0 \<le> x - of_int \<lfloor>x\<rfloor>" and "x - of_int \<lfloor>x\<rfloor> < 1"
    by linarith+
  then show ?thesis
    by (auto simp: round_even_def Let_def abs_le_iff)
qed

lemma rnd_error: "\<bar>rnd q - q\<bar> \<le> ulp q / 2"
proof -
  have "rnd q - q = (of_int (round_even (q / ulp q)) - q / ulp q) * ulp q"
    using ulp_pos [of q] by (simp add: rnd_def field_simps)
  then have "\<bar>rnd q - q\<bar> = \<bar>of_int (round_even (q / ulp q)) - q / ulp q\<bar> * ulp q"
    using ulp_pos [of q] by (simp add: abs_mult)
  also have "\<dots> \<le> 1 / 2 * ulp q"
    using round_even_error [of "q / ulp q"] ulp_pos [of q]
    by (intro mult_right_mono) simp_all
  finally show ?thesis
    by simp
qed

section \<open>The operations return binary64 values\<close>

text \<open>
  A rounded magnitude below \<open>2 ^ 1024\<close> is a binary64 magnitude, so the four operations
  and the literals yield numbers, and \<open>computeROI\<close> maps a parameter object whose fields
  are numbers to a result whose fields are numbers.
\<close>

lemma round_even_ge: "of_int k \<le> x \<Longrightarrow> k \<le> round_even x"
proof -
  assume "of_int k \<le> x"
  then have "k \<le> \<lfloor>x\<rfloor>"
    by (simp add: le_floor_iff)
  then show ?thesis
    by (simp add: round_even_def Let_def)
qed

lemma round_even_le: "x \<le> of_int k \<Longrightarrow> round_even x \<le> k"
proof (cases "x = of_int k")
  case True
  then show ?thesis
    by (simp add: round_even_of_int)
next
  case False
  assume "x \<le> of_int k"
  with False have "x < of_int k"
    by simp
  then have "\<lfloor>x\<rfloor> < k"
    by (simp add: floor_less_iff)
  then show ?thesis
    by (simp add: round_even_def Let_def)
qed

lemma pow2_shift: "pow2 (e + int k) = 2 ^ k * pow2 e"
  by (simp add: pow2_add pow2_nat)

lemma is_double_rnd:
  assumes q: "0 \<le> q" and fin: "rnd q < 2 ^ 1024"
  shows "is_double (rnd q)"
proof (cases "q = 0")
  case True
  then show ?thesis
    by (simp add: rnd_zero is_double_def)
next
  case False
  with q have qpos: "0 < q"
    by simp
  define E where "E = max (flog2 q) (- 1022)"
  define u where "u = pow2 (E - 52)"
  define n where "n = round_even (q / u)"
  have u: "ulp q = u"
    by (simp add: ulp_def E_def u_def)
  have upos: "0 < u"
    by (simp add: u_def pow2_pos)
  have r: "rnd q = of_int n * u"
    by (simp add: rnd_def u n_def)
  have p52: "pow2 E = 2 ^ 52 * u"
    using pow2_shift [of "E - 52" 52] by (simp add: u_def)
  have p53: "pow2 (E + 1) = 2 ^ 53 * u"
    using pow2_shift [of "E - 52" 53] by (simp add: u_def add.commute)
  have "q < pow2 (flog2 q + 1)"
    by (rule flog2_bounds(2) [OF qpos])
  also have "\<dots> \<le> pow2 (E + 1)"
    by (rule pow2_le) (simp add: E_def)
  finally have "q / u < 2 ^ 53"
    using upos by (simp add: p53 field_simps)
  then have "q / u \<le> of_int (2 ^ 53)"
    by simp
  then have nhi: "n \<le> 2 ^ 53"
    unfolding n_def by (rule round_even_le)
  have nlo: "0 \<le> n"
    unfolding n_def using q upos by (intro round_even_nonneg) simp
  have nnorm: "2 ^ 52 \<le> n" if "- 1022 \<le> flog2 q"
  proof -
    from that have "E = flog2 q"
      by (simp add: E_def)
    then have "pow2 E \<le> q"
      using flog2_bounds(1) [OF qpos] by simp
    then have "of_int (2 ^ 52) \<le> q / u"
      using upos by (simp add: p52 field_simps)
    then show ?thesis
      unfolding n_def by (rule round_even_ge)
  qed
  consider (zero) "n = 0" | (sub) "0 < n" "n < 2 ^ 52"
    | (norm) "2 ^ 52 \<le> n" "n < 2 ^ 53" | (top) "n = 2 ^ 53"
    using nlo nhi by linarith
  then have "\<exists>k. rnd q / ulp (rnd q) = of_int k"
  proof cases
    case zero
    then have "rnd q / ulp (rnd q) = of_int 0"
      by (simp add: r)
    then show ?thesis ..
  next
    case sub
    then have "flog2 q < - 1022"
      using nnorm by (cases "- 1022 \<le> flog2 q") simp_all
    then have E: "E = - 1022"
      by (simp add: E_def)
    have rpos: "0 < rnd q"
      using sub upos by (simp add: r)
    have "of_int n < (2::rat) ^ 52"
      using sub(2) by (metis of_int_less_iff of_int_numeral of_int_power)
    then have "rnd q < pow2 (- 1022)"
      using upos p52 by (simp add: r E)
    with flog2_bounds(1) [OF rpos] have "pow2 (flog2 (rnd q)) < pow2 (- 1022)"
      by simp
    then have "flog2 (rnd q) < - 1022"
      using pow2_le [of "- 1022" "flog2 (rnd q)"] by (cases "flog2 (rnd q) < - 1022") simp_all
    then have "ulp (rnd q) = u"
      by (simp add: ulp_def u_def E)
    then have "rnd q / ulp (rnd q) = of_int n"
      using upos by (simp add: r)
    then show ?thesis ..
  next
    case norm
    have "of_int (2 ^ 52) \<le> (of_int n :: rat)" and "(of_int n :: rat) < of_int (2 ^ 53)"
      using norm by (simp_all only: of_int_le_iff of_int_less_iff)
    then have "pow2 E \<le> rnd q" and "rnd q < pow2 (E + 1)"
      using upos by (simp_all add: r p52 p53)
    then have "flog2 (rnd q) = E"
      by (rule flog2_unique)
    then have "ulp (rnd q) = u"
      by (simp add: ulp_def u_def E_def)
    then have "rnd q / ulp (rnd q) = of_int n"
      using upos by (simp add: r)
    then show ?thesis ..
  next
    case top
    then have rr: "rnd q = pow2 (E + 1)"
      by (simp add: r p53)
    have "pow2 (E + 1) < pow2 (E + 1 + 1)"
      by (rule pow2_less) simp
    then have "flog2 (rnd q) = E + 1"
      unfolding rr by (intro flog2_unique) simp_all
    then have "ulp (rnd q) = pow2 (E + 1 - 52)"
      by (simp add: ulp_def E_def)
    also have "\<dots> = 2 * u"
      using pow2_shift [of "E - 52" 1] by (simp add: u_def add.commute)
    finally have "rnd q / ulp (rnd q) = of_int (2 ^ 52)"
      using upos by (simp add: rr p53)
    then show ?thesis ..
  qed
  then obtain k where "rnd q / ulp (rnd q) = of_int k" ..
  then have "of_int \<lfloor>rnd q / ulp (rnd q)\<rfloor> = rnd q / ulp (rnd q)"
    by simp
  with rnd_nonneg [OF q] fin show ?thesis
    unfolding is_double_def by blast
qed

lemma valid_to_number: "0 \<le> q \<Longrightarrow> valid (to_number s q)"
  by (simp add: to_number_def Let_def is_double_rnd not_le)

lemma is_double_nonneg: "is_double m \<Longrightarrow> 0 \<le> m"
  by (simp add: is_double_def)

lemma is_double_zero: "is_double 0"
  by (simp add: is_double_def)

lemma valid_fmul: "valid x \<Longrightarrow> valid y \<Longrightarrow> valid (fmul x y)"
  by (cases x; cases y) (simp_all add: valid_to_number is_double_nonneg)

lemma valid_fdiv: "valid x \<Longrightarrow> valid y \<Longrightarrow> valid (fdiv x y)"
  by (cases x; cases y) (simp_all add: valid_to_number is_double_nonneg is_double_zero)

lemma valid_fadd: "valid x \<Longrightarrow> valid y \<Longrightarrow> valid (fadd x y)"
  by (cases x; cases y) (simp_all add: Let_def valid_to_number is_double_zero)

lemma valid_fsub: "valid x \<Longrightarrow> valid y \<Longrightarrow> valid (fsub x y)"
  unfolding fsub_def by (rule valid_fadd) (cases y; simp)+

lemma valid_lit: "valid (lit q)"
  by (simp add: lit_def valid_to_number)

lemma computeROI_valid:
  assumes "list_all (\<lambda>(k, v). valid v) (ROIParams_entries p)"
  shows "list_all (\<lambda>(k, v). valid v) (ROIResult_entries (computeROI p))"
  using assms
  by (simp add: ROIParams_entries_def ROIResult_entries_def computeROI_def Let_def
      valid_fmul valid_fdiv valid_fadd valid_fsub valid_lit)

section \<open>Evaluating the arithmetic on numerals\<close>

text \<open>
  The simplifier evaluates the rounding of a concrete rational once it knows how to take
  the floor of a quotient of numerals and the bit length of a numeral. The values of the
  literals and the results of the operations on the inputs used below follow.
\<close>

lemma floor_rat_numeral: "\<lfloor>numeral a / numeral b :: rat\<rfloor> = numeral a div numeral b"
  by (metis floor_divide_of_int_eq of_int_numeral)

lemma ceiling_rat_numeral:
  "\<lceil>numeral a / numeral b :: rat\<rceil> = - (- numeral a div numeral b)"
  using ceiling_divide_eq_div [of "numeral a" "numeral b"] by simp

lemma bitlen_numeral: "bitlen (numeral k) = bitlen (numeral k div 2) + 1"
  by (subst compute_bitlen) simp

lemma bitlen_one: "bitlen 1 = 1"
  by (subst compute_bitlen) simp

lemmas num_eval =
  to_number_def rnd_def ulp_def flog2_def pow2_def round_even_def Let_def lit_def sval_def
  bitlen_numeral bitlen_one floor_rat_numeral ceiling_rat_numeral

lemma lit_values:
  "lit (33 / 100) = Finite False (5944751508129055 / 18014398509481984)"
  "lit (6 / 10) = Finite False (5404319552844595 / 9007199254740992)"
  "lit (3 / 1000) = Finite False (3458764513820541 / 1152921504606846976)"
  "lit (1 / 1000) = Finite False (1152921504606847 / 1152921504606846976)"
  "lit (5 / 10) = Finite False (1 / 2)"
  "lit (2 / 10) = Finite False (3602879701896397 / 18014398509481984)"
  "lit (- (6 / 10)) = Finite True (5404319552844595 / 9007199254740992)"
  "lit 0 = Finite False 0"
  "lit 2 = Finite False 2"
  "lit 3 = Finite False 3"
  "lit 6 = Finite False 6"
  "lit 8 = Finite False 8"
  "lit 12 = Finite False 12"
  "lit 33 = Finite False 33"
  "lit 50 = Finite False 50"
  "lit 60 = Finite False 60"
  "lit 100 = Finite False 100"
  "lit 165 = Finite False 165"
  "lit 250 = Finite False 250"
  "lit 3000 = Finite False 3000"
  "lit 20000 = Finite False 20000"
  "lit 42768 = Finite False 42768"
  "lit 71280 = Finite False 71280"
  "lit 95040 = Finite False 95040"
  "lit 178200 = Finite False 178200"
  "lit 200968 = Finite False 200968"
  "lit 220968 = Finite False 220968"
  "lit 297000 = Finite False 297000"
  "lit 23760000 = Finite False 23760000"
  by (simp_all add: num_eval)

lemma baseline_ops:
  "fmul (Finite False 6) (Finite False 2) = Finite False 12"
  "fmul (Finite False 12) (Finite False 250) = Finite False 3000"
  "fmul (Finite False 6) (Finite False 50) = Finite False 300"
  "fdiv (Finite False 300) (Finite False 100) = Finite False 3"
  "fmul (Finite False (5944751508129055 / 18014398509481984)) (Finite False 100) = Finite False 33"
  "fmul (Finite False 33) (Finite False 3) = Finite False 99"
  "fmul (Finite False 99) (Finite False 3000) = Finite False 297000"
  "fmul (Finite False 8) (Finite False 60) = Finite False 480"
  "fmul (Finite False 480) (Finite False 2) = Finite False 960"
  "fdiv (Finite False 60) (Finite False 100) = Finite False (5404319552844595 / 9007199254740992)"
  "fmul (Finite False 165) (Finite False (5404319552844595 / 9007199254740992)) = Finite False 99"
  "fmul (Finite False 99) (Finite False 960) = Finite False 95040"
  "fmul (Finite False 95040) (Finite False 250) = Finite False 23760000"
  "fmul (Finite False (3458764513820541 / 1152921504606846976)) (Finite False 23760000) = Finite False 71280"
  "fmul (Finite False 297000) (Finite False (5404319552844595 / 9007199254740992)) = Finite False 178200"
  "fmul (Finite False 71280) (Finite False (5404319552844595 / 9007199254740992)) = Finite False 42768"
  "fadd (Finite False 178200) (Finite False 42768) = Finite False 220968"
  "fsub (Finite False 220968) (Finite False 20000) = Finite False 200968"
  by (simp_all add: num_eval fsub_def)

lemma computeROI_baselineParams:
  "computeROI baselineParams =
    \<lparr> jobsPerDay = Finite False 12,
      jobsPerYear = Finite False 3000,
      m2PerStop = Finite False 33,
      m2CalagePerYear = Finite False 297000,
      printedLengthPerYear = Finite False 23760000,
      m2ThreeMmPerYear = Finite False 71280,
      euroCalage = Finite False 178200,
      euroThreeMm = Finite False 42768,
      euroTotal = Finite False 220968,
      euroNet = Finite False 200968 \<rparr>"
  by (simp only: computeROI_def baselineParams_def Let_def lit_values baseline_ops
      ROIParams.select_convs)

lemma test_ops:
  "fmul (Finite False 6) (Finite False (1 / 2)) = Finite False 3"
  "fsub (Finite False 297000) (Finite False 297000) = Finite False 0"
  "fmul (Finite False 297000) (Finite False (1152921504606847 / 1152921504606846976)) = Finite False 297"
  "fsub (Finite False 71280) (Finite False 71280) = Finite False 0"
  "fmul (Finite False 71280) (Finite False (1152921504606847 / 1152921504606846976)) = Finite False (2507942042491945 / 35184372088832)"
  by (simp_all add: num_eval fsub_def)

lemma expected_values:
  "expected_m2CalagePerYear = Finite False 297000"
  "expected_m2ThreeMmPerYear = Finite False 71280"
  by (simp_all only: expected_m2CalagePerYear_def expected_m2ThreeMmPerYear_def
      lit_values baseline_ops test_ops)

lemma more_ops:
  "fmul (Finite False 297000) (Finite True (5404319552844595 / 9007199254740992)) = Finite True 178200"
  "fmul (Finite False 6) (Finite False 0) = Finite False 0"
  "fdiv (Finite False 0) (Finite False 100) = Finite False 0"
  "fmul (Finite False 33) (Finite False 0) = Finite False 0"
  "fmul (Infinity False) (Finite False 250) = Infinity False"
  "fmul (Finite False 0) (Infinity False) = NaN"
  "fmul (Infinity False) (Finite False 0) = NaN"
  "fmul NaN (Finite False 2) = NaN"
  "fmul NaN (Finite False 250) = NaN"
  by (simp_all add: num_eval to_number_zero)

lemma rounding_ops:
  "fmul (Finite False 3) (Finite False (3602879701896397 / 18014398509481984)) =
     Finite False (1351079888211149 / 2251799813685248)"
  "fmul (Finite False (1351079888211149 / 2251799813685248)) (Finite False 100) =
     Finite False (8444249301319681 / 140737488355328)"
  "fmul (Finite False (3602879701896397 / 18014398509481984)) (Finite False 100) = Finite False 20"
  "fmul (Finite False 3) (Finite False 20) = Finite False 60"
  by (simp_all add: num_eval)

lemma exact_ops:
  "fmul (Finite False (1 / 2)) (Finite False 100) = Finite False 50"
  "fmul (Finite False 50) (Finite False 3) = Finite False 150"
  "fmul (Finite False 150) (Finite False 3000) = Finite False 450000"
  "fmul (Finite False 450000) (Finite False (1 / 2)) = Finite False 225000"
  "fmul (Finite False 71280) (Finite False (1 / 2)) = Finite False 35640"
  "fmul (Finite False 2) (Finite False (1 / 2)) = Finite False 1"
  by (simp_all add: num_eval)

lemma is_double_values:
  "is_double 1" "is_double 2" "is_double 50" "is_double 200" "is_double 35640"
  "is_double 71280" "is_double 225000" "is_double 260640" "is_double 450000"
  by (simp_all add: is_double_def num_eval)

lemma valid_values:
  "valid (Finite False (5944751508129055 / 18014398509481984))"
  "valid (Finite False (5404319552844595 / 9007199254740992))"
  "valid (Finite False 2)"
  "valid (Finite False 6)"
  "valid (Finite False 8)"
  "valid (Finite False 50)"
  "valid (Finite False 60)"
  "valid (Finite False 100)"
  "valid (Finite False 165)"
  "valid (Finite False 250)"
  "valid (Finite False 20000)"
  by (simp_all add: is_double_def num_eval)

lemmas roi_eval =
  computeROI_def stopsAvoidedPerJob_def minutesPerDay_def printedLengthPerDay_def
  baselineParams_def Let_def ROIParams.select_convs ROIParams.update_convs
  ROIResult.select_convs lit_values baseline_ops

section \<open>Signs and zeros\<close>

lemma not_negative_intro: "valid x \<Longrightarrow> fle (lit 0) x \<Longrightarrow> not_negative x"
  by (cases x) (auto simp: lit_values is_double_def sval_def split: if_splits)

lemma not_negative_elim: "not_negative x \<Longrightarrow> fle (lit 0) x \<or> x = NaN"
  by (cases x) (auto simp: lit_values sval_def)

lemma not_negative_to_number: "0 \<le> q \<Longrightarrow> q = 0 \<or> \<not> s \<Longrightarrow> not_negative (to_number s q)"
  by (auto simp: to_number_def Let_def rnd_nonneg rnd_zero)

lemma not_negative_fmul:
  "not_negative x \<Longrightarrow> not_negative y \<Longrightarrow> not_negative (fmul x y)"
  by (cases x; cases y) (auto intro!: not_negative_to_number)

lemma not_negative_fdiv:
  "not_negative x \<Longrightarrow> not_negative (fdiv x (Finite False 100))"
  by (cases x) (auto intro!: not_negative_to_number)

lemma not_negative_fadd:
  "not_negative x \<Longrightarrow> not_negative y \<Longrightarrow> not_negative (fadd x y)"
  by (cases x; cases y) (auto simp: sval_def Let_def intro!: not_negative_to_number)

lemma not_negative_lit:
  "not_negative (Finite False 60)"
  "not_negative (Finite False (3458764513820541 / 1152921504606846976))"
  by simp_all

lemma fmul_NaN_right: "fmul x NaN = NaN"
  by (cases x) simp_all

lemma feq_zero_iff: "feq x (lit 0) \<longleftrightarrow> (\<exists>s. x = Finite s 0)"
  by (cases x) (auto simp: lit_values sval_def)

lemma is_finite_iff: "is_finite x \<longleftrightarrow> (\<exists>s m. x = Finite s m)"
  by (cases x) auto

lemma zero_fmul_left: "feq x (lit 0) \<Longrightarrow> is_finite y \<Longrightarrow> feq (fmul x y) (lit 0)"
  by (auto simp: feq_zero_iff is_finite_iff to_number_zero)

lemma zero_fmul_right: "is_finite x \<Longrightarrow> feq y (lit 0) \<Longrightarrow> feq (fmul x y) (lit 0)"
  by (auto simp: feq_zero_iff is_finite_iff to_number_zero)

lemma zero_fdiv:
  assumes "feq x (lit 0)"
  shows "feq (fdiv x (lit 100)) (lit 0)"
proof -
  from assms obtain s where "x = Finite s 0"
    by (auto simp: feq_zero_iff)
  then show ?thesis
    by (simp add: lit_values to_number_zero sval_def)
qed

lemma zero_fadd: "feq x (lit 0) \<Longrightarrow> feq y (lit 0) \<Longrightarrow> feq (fadd x y) (lit 0)"
  by (auto simp: feq_zero_iff sval_def)

lemma zero_fsub:
  assumes "feq z (lit 0)" and "valid h" and "h \<noteq> NaN"
  shows "feq (fsub z h) (fneg h)"
proof (cases h)
  case NaN
  with assms show ?thesis by simp
next
  case (Infinity t)
  with assms show ?thesis by (auto simp: feq_zero_iff fsub_def)
next
  case (Finite t n)
  with assms have d: "is_double n" by simp
  then have "0 \<le> n" by (simp add: is_double_def)
  from assms obtain s where z: "z = Finite s 0" by (auto simp: feq_zero_iff)
  show ?thesis
  proof (cases "n = 0")
    case True
    with Finite z show ?thesis by (simp add: fsub_def sval_def)
  next
    case False
    with \<open>0 \<le> n\<close> have "0 < n" by simp
    then have "fsub z h = Finite (\<not> t) n"
      using Finite z d by (simp add: fsub_def sval_def to_number_is_double)
    with Finite show ?thesis by simp
  qed
qed

lemma is_finite_fmul: "is_finite (fmul x y) \<Longrightarrow> is_finite x \<and> is_finite y"
  by (cases x; cases y) (auto split: if_splits)

lemma is_finite_not_NaN: "is_finite x \<Longrightarrow> x \<noteq> NaN"
  by (cases x) simp_all

lemma fmul_finite_not_NaN: "is_finite x \<Longrightarrow> is_finite y \<Longrightarrow> fmul x y \<noteq> NaN"
  by (cases x; cases y) (simp_all add: to_number_def Let_def)

lemma fadd_not_NaN:
  "not_negative x \<Longrightarrow> not_negative y \<Longrightarrow> x \<noteq> NaN \<Longrightarrow> y \<noteq> NaN \<Longrightarrow> fadd x y \<noteq> NaN"
  by (cases x; cases y) (simp_all add: to_number_def Let_def)

lemma not_negative_fle: "not_negative x \<Longrightarrow> x \<noteq> NaN \<Longrightarrow> fle (lit 0) x"
  using not_negative_elim [of x] by blast

section \<open>Overflow\<close>

lemma flog2_power2: "flog2 (2 ^ n) = int n"
proof -
  have "bitlen (2 ^ n) = int n + 1"
    using bitlen_twopow_add_eq [of 0 n] by simp
  moreover have "\<lfloor>(2::rat) ^ n\<rfloor> = 2 ^ n"
    by (metis floor_of_int of_int_numeral of_int_power)
  moreover have "(1::rat) \<le> 2 ^ n"
    by simp
  ultimately show ?thesis
    by (simp add: flog2_def)
qed

lemma to_number_overflow: "to_number s (2 ^ 1024) = Infinity s"
proof -
  have u: "ulp (2 ^ 1024) = 2 ^ 972"
    by (simp only: ulp_def flog2_power2) (simp add: pow2_def)
  have "(2::rat) ^ 1024 / 2 ^ 972 = of_int (2 ^ 52)"
    by simp
  then have "round_even (2 ^ 1024 / 2 ^ 972) = 2 ^ 52"
    by (simp only: round_even_of_int)
  then have "rnd (2 ^ 1024) = 2 ^ 1024"
    by (simp only: rnd_def u) simp
  then show ?thesis
    by (simp only: to_number_def Let_def) simp
qed

lemma overflow_ops:
  "fmul (Finite False (2 ^ 1023)) (Finite False 2) = Infinity False"
proof -
  have "(2::rat) ^ 1023 * 2 = 2 ^ 1024"
    by simp
  then show ?thesis
    by (simp only: fmul.simps to_number_overflow) simp
qed

lemma is_double_power2: "is_double (2 ^ 1023)"
proof -
  have u: "ulp (2 ^ 1023) = 2 ^ 971"
    by (simp only: ulp_def flog2_power2) (simp add: pow2_def)
  have "(2::rat) ^ 1023 / 2 ^ 971 = of_int (2 ^ 52)"
    by simp
  then have "of_int \<lfloor>(2::rat) ^ 1023 / 2 ^ 971\<rfloor> = (2::rat) ^ 1023 / 2 ^ 971"
    by (simp only: floor_of_int)
  then show ?thesis
    by (simp only: is_double_def u) simp
qed

section \<open>Exact products and sums\<close>

lemma exact_mulE:
  assumes "exact_mul x y"
  obtains s m t n where "x = Finite s m" and "y = Finite t n"
    and "fmul x y = Finite (s \<noteq> t) (m * n)"
proof (cases x)
  case (Finite s m)
  note x = this
  show ?thesis
  proof (cases y)
    case (Finite t n)
    with x assms have "fmul x y = Finite (s \<noteq> t) (m * n)"
      by (simp add: to_number_is_double)
    with x Finite show ?thesis by (rule that)
  qed (use assms x in simp_all)
qed (use assms in simp_all)

lemma feq_to_number: "feq (to_number s q) (to_number s q)"
  by (simp add: to_number_def Let_def)

lemma sval_mult: "sval (s \<noteq> t) (m * n) = sval s m * sval t n"
  by (simp add: sval_def)

lemma scale_left:
  assumes "exact_mul k w" and "exact_mul w l"
  shows "feq (fmul (fmul k w) l) (fmul k (fmul w l))"
proof -
  from assms(1) obtain sk mk sw mw where
    k: "k = Finite sk mk" and w: "w = Finite sw mw"
    and kw: "fmul k w = Finite (sk \<noteq> sw) (mk * mw)"
    by (rule exact_mulE)
  from assms(2) w obtain sl ml where
    l: "l = Finite sl ml" and wl: "fmul w l = Finite (sw \<noteq> sl) (mw * ml)"
    by (auto elim: exact_mulE)
  have "((sk \<noteq> sw) \<noteq> sl) = (sk \<noteq> (sw \<noteq> sl))" by auto
  then show ?thesis
    unfolding kw wl by (simp add: k l mult.assoc feq_to_number)
qed

lemma scale_right:
  assumes "exact_mul k l" and "exact_mul w l"
  shows "feq (fmul w (fmul k l)) (fmul k (fmul w l))"
proof -
  from assms(1) obtain sk mk sl ml where
    k: "k = Finite sk mk" and l: "l = Finite sl ml"
    and kl: "fmul k l = Finite (sk \<noteq> sl) (mk * ml)"
    by (rule exact_mulE)
  from assms(2) l obtain sw mw where
    w: "w = Finite sw mw" and wl: "fmul w l = Finite (sw \<noteq> sl) (mw * ml)"
    by (auto elim: exact_mulE)
  have "(sw \<noteq> (sk \<noteq> sl)) = (sk \<noteq> (sw \<noteq> sl))" by auto
  moreover have "mw * (mk * ml) = mk * (mw * ml)" by simp
  ultimately have "fmul w (fmul k l) = fmul k (fmul w l)"
    unfolding kl wl by (simp only: k w fmul.simps)
  then show ?thesis
    unfolding wl by (simp add: k feq_to_number)
qed

lemma fadd_Finite:
  "fadd (Finite s m) (Finite t n) =
    (if sval s m + sval t n = 0 then Finite (s \<and> t) 0
     else to_number (sval s m + sval t n < 0) \<bar>sval s m + sval t n\<bar>)"
  by (simp add: Let_def)

lemma scale_sum:
  assumes vk: "valid k"
    and "exact_mul k pr" and "exact_mul c pr" and "exact_mul t pr"
    and "exact_mul c (fmul k pr)" and "exact_mul t (fmul k pr)"
    and "exact_add (fmul c pr) (fmul t pr)"
  shows "feq (fadd (fmul c (fmul k pr)) (fmul t (fmul k pr)))
             (fmul k (fadd (fmul c pr) (fmul t pr)))"
proof -
  from assms(2) obtain sk mk sp mp where
    k: "k = Finite sk mk" and pr: "pr = Finite sp mp"
    and kp: "fmul k pr = Finite (sk \<noteq> sp) (mk * mp)"
    by (rule exact_mulE)
  from assms(3) pr obtain sc mc where
    c: "c = Finite sc mc" and cp: "fmul c pr = Finite (sc \<noteq> sp) (mc * mp)"
    by (auto elim: exact_mulE)
  from assms(4) pr obtain st mt where
    t: "t = Finite st mt" and tp: "fmul t pr = Finite (st \<noteq> sp) (mt * mp)"
    by (auto elim: exact_mulE)
  from assms(5) c have ckp: "fmul c (fmul k pr) = Finite (sc \<noteq> (sk \<noteq> sp)) (mc * (mk * mp))"
    unfolding kp by (simp add: to_number_is_double)
  from assms(6) t have tkp: "fmul t (fmul k pr) = Finite (st \<noteq> (sk \<noteq> sp)) (mt * (mk * mp))"
    unfolding kp by (simp add: to_number_is_double)
  from vk k have mk0: "0 \<le> mk"
    by (simp add: is_double_def)
  define q where "q = sval (sc \<noteq> sp) (mc * mp) + sval (st \<noteq> sp) (mt * mp)"
  define q' where
    "q' = sval (sc \<noteq> (sk \<noteq> sp)) (mc * (mk * mp)) + sval (st \<noteq> (sk \<noteq> sp)) (mt * (mk * mp))"
  have qq: "q' = sval sk mk * q"
    unfolding q_def q'_def sval_mult by (simp add: algebra_simps)
  from assms(7) have dq: "is_double \<bar>q\<bar>"
    unfolding cp tp q_def by simp
  have lhs: "fadd (fmul c (fmul k pr)) (fmul t (fmul k pr)) =
      (if q' = 0 then Finite ((sc \<noteq> (sk \<noteq> sp)) \<and> (st \<noteq> (sk \<noteq> sp))) 0
       else to_number (q' < 0) \<bar>q'\<bar>)"
    unfolding ckp tkp q'_def by (rule fadd_Finite)
  have sum: "fadd (fmul c pr) (fmul t pr) =
      (if q = 0 then Finite ((sc \<noteq> sp) \<and> (st \<noteq> sp)) 0 else Finite (q < 0) \<bar>q\<bar>)"
    unfolding cp tp
    by (simp only: fadd_Finite q_def [symmetric] to_number_is_double [OF dq])
  show ?thesis
  proof (cases "q = 0 \<or> mk = 0")
    case True
    then have "q' = 0"
      using qq by (auto simp: sval_def)
    then have L: "\<exists>s. fadd (fmul c (fmul k pr)) (fmul t (fmul k pr)) = Finite s 0"
      by (simp add: lhs)
    have R: "\<exists>s. fmul k (fadd (fmul c pr) (fmul t pr)) = Finite s 0"
      using True by (auto simp: sum k to_number_zero)
    from L R show ?thesis
      by (auto simp: sval_def)
  next
    case False
    with mk0 have "0 < mk" and "q \<noteq> 0" by simp_all
    then have "q' \<noteq> 0"
      using qq by (simp add: sval_def)
    then have L: "fadd (fmul c (fmul k pr)) (fmul t (fmul k pr)) = to_number (q' < 0) \<bar>q'\<bar>"
      by (simp add: lhs)
    have R: "fmul k (fadd (fmul c pr) (fmul t pr)) = to_number (sk \<noteq> (q < 0)) (mk * \<bar>q\<bar>)"
      using \<open>q \<noteq> 0\<close> by (simp add: sum k)
    have "\<bar>q'\<bar> = mk * \<bar>q\<bar>"
      using qq \<open>0 < mk\<close> by (simp add: sval_def abs_mult)
    moreover have "(q' < 0) = (sk \<noteq> (q < 0))"
    proof (cases sk)
      case True
      then have "q' = - (mk * q)"
        using qq by (simp add: sval_def)
      then have "(q' < 0) = (0 < q)"
        using \<open>0 < mk\<close> by (simp add: zero_less_mult_iff)
      with True \<open>q \<noteq> 0\<close> show ?thesis by auto
    next
      case False
      then have "q' = mk * q"
        using qq by (simp add: sval_def)
      then have "(q' < 0) = (q < 0)"
        using \<open>0 < mk\<close> by (simp add: mult_less_0_iff)
      with False show ?thesis by simp
    qed
    ultimately show ?thesis
      by (simp only: L R feq_to_number)
  qed
qed

lemma computeROI_substratePrice_update:
  "m2CalagePerYear (computeROI (p\<lparr>substratePrice := x\<rparr>)) = m2CalagePerYear (computeROI p)"
  "m2ThreeMmPerYear (computeROI (p\<lparr>substratePrice := x\<rparr>)) = m2ThreeMmPerYear (computeROI p)"
  by (simp_all add: computeROI_def Let_def)

lemma computeROI_euro:
  "euroCalage (computeROI p) = fmul (m2CalagePerYear (computeROI p)) (substratePrice p)"
  "euroThreeMm (computeROI p) = fmul (m2ThreeMmPerYear (computeROI p)) (substratePrice p)"
  "euroTotal (computeROI p) = fadd (euroCalage (computeROI p)) (euroThreeMm (computeROI p))"
  by (simp_all only: computeROI_def Let_def ROIResult.select_convs)

section \<open>Calls and the outer environment\<close>

text \<open>
  The result of a call can depend on the environment outside the function:
  \<open>function f(p) { return { rate }; }\<close> returns whatever \<open>rate\<close> is bound to there, and
  throws when it is bound nowhere.
\<close>

lemma call_free_identifier:
  "call (\<lambda>x. if x = ''rate'' then Some v else None)
     ([''p''], [Return [(''rate'', Ident ''rate'')]]) [a] = Some (Object [(''rate'', v)])"
  "call (\<lambda>x. None) ([''p''], [Return [(''rate'', Ident ''rate'')]]) [a] = None"
  by (simp_all add: call_def)

text \<open>A \<open>const\<close> is not readable before its declaration, whatever is bound outside.\<close>

lemma call_const_before_declaration:
  "call g ([], [Const ''a'' (Ident ''b''), Const ''b'' (Literal 1), Return []]) [] = None"
  by (simp add: call_def)

section \<open>The baseline scenario\<close>

text \<open>
  Claim C1. On the baseline input (web width 0.33, 6 jobs per shift, 2 shifts per day,
  250 days per year, 6 stops per job, 50 percent reduction, 100 m of waste per stop,
  165 m/min, 60 percent uptime, 8 hours per shift, substrate price 0.6, subscription
  price 20000) \<open>computeROI\<close> returns jobsPerYear = 3000, m2PerStop = 33,
  m2CalagePerYear = 297000, printedLengthPerYear = 23760000, m2ThreeMmPerYear = 71280,
  euroCalage = 178200, euroThreeMm = 42768, euroTotal = 220968 and euroNet = 200968,
  with the intermediate values stopsAvoidedPerJob = 3 and printedLengthPerDay = 95040.
  In binary64 arithmetic every one of these results is the stated number itself, with
  no rounding error left, which is within any tolerance.
\<close>

theorem baseline_scenario_values:
  "jobsPerYear (computeROI baselineParams) = lit 3000 \<and>
   stopsAvoidedPerJob baselineParams = lit 3 \<and>
   m2PerStop (computeROI baselineParams) = lit 33 \<and>
   m2CalagePerYear (computeROI baselineParams) = lit 297000 \<and>
   printedLengthPerDay baselineParams = lit 95040 \<and>
   printedLengthPerYear (computeROI baselineParams) = lit 23760000 \<and>
   m2ThreeMmPerYear (computeROI baselineParams) = lit 71280 \<and>
   euroCalage (computeROI baselineParams) = lit 178200 \<and>
   euroThreeMm (computeROI baselineParams) = lit 42768 \<and>
   euroTotal (computeROI baselineParams) = lit 220968 \<and>
   euroNet (computeROI baselineParams) = lit 200968"
proof -
  have "stopsAvoidedPerJob baselineParams = lit 3"
    and "printedLengthPerDay baselineParams = lit 95040"
    by (simp_all only: stopsAvoidedPerJob_def printedLengthPerDay_def minutesPerDay_def
        baselineParams_def ROIParams.select_convs lit_values baseline_ops)
  then show ?thesis
    by (simp only: computeROI_baselineParams lit_values ROIResult.select_convs simp_thms)
qed

section \<open>The formula sequence\<close>

text \<open>
  Claim C2. For every parameter object, each returned field is computed by the fixed
  formula sequence: jobsPerDay = jobsPerShift * shiftsPerDay; jobsPerYear = jobsPerDay *
  daysPerYear; stopsAvoidedPerJob = stopsPerJobBaseline * reductionPercent / 100, which
  enters the next product as it is, not rounded to a whole number of stops;
  m2PerStop = webWidth * wastePerStopM; m2CalagePerYear = m2PerStop * stopsAvoidedPerJob *
  jobsPerYear; minutesPerDay = hoursPerShift * 60 * shiftsPerDay; printedLengthPerDay =
  speedMPerMin * (uptimePercent / 100) * minutesPerDay; printedLengthPerYear =
  printedLengthPerDay * daysPerYear; m2ThreeMmPerYear = 0.003 * printedLengthPerYear;
  euroCalage = m2CalagePerYear * substratePrice; euroThreeMm = m2ThreeMmPerYear *
  substratePrice; euroTotal = euroCalage + euroThreeMm; euroNet = euroTotal - haasPrice.
  Products associate to the left, and minutesPerDay is a factor of its own, as in the
  source text.
\<close>

theorem computeROI_formulas:
  "jobsPerDay (computeROI p) = fmul (jobsPerShift p) (shiftsPerDay p) \<and>
   jobsPerYear (computeROI p) = fmul (fmul (jobsPerShift p) (shiftsPerDay p)) (daysPerYear p) \<and>
   stopsAvoidedPerJob p = fdiv (fmul (stopsPerJobBaseline p) (reductionPercent p)) (lit 100) \<and>
   m2PerStop (computeROI p) = fmul (webWidth p) (wastePerStopM p) \<and>
   m2CalagePerYear (computeROI p) =
     fmul (fmul (m2PerStop (computeROI p)) (stopsAvoidedPerJob p)) (jobsPerYear (computeROI p)) \<and>
   minutesPerDay p = fmul (fmul (hoursPerShift p) (lit 60)) (shiftsPerDay p) \<and>
   printedLengthPerDay p =
     fmul (fmul (speedMPerMin p) (fdiv (uptimePercent p) (lit 100))) (minutesPerDay p) \<and>
   printedLengthPerYear (computeROI p) = fmul (printedLengthPerDay p) (daysPerYear p) \<and>
   m2ThreeMmPerYear (computeROI p) = fmul (lit (3 / 1000)) (printedLengthPerYear (computeROI p)) \<and>
   euroCalage (computeROI p) = fmul (m2CalagePerYear (computeROI p)) (substratePrice p) \<and>
   euroThreeMm (computeROI p) = fmul (m2ThreeMmPerYear (computeROI p)) (substratePrice p) \<and>
   euroTotal (computeROI p) = fadd (euroCalage (computeROI p)) (euroThreeMm (computeROI p)) \<and>
   euroNet (computeROI p) = fsub (euroTotal (computeROI p)) (haasPrice p)"
  by (simp only: computeROI_def stopsAvoidedPerJob_def minutesPerDay_def printedLengthPerDay_def
      Let_def ROIResult.select_convs simp_thms)

section \<open>The size of the interface\<close>

text \<open>
  Claim C3, as amended. \<open>computeROI\<close> derives ten output quantities from twelve input
  quantities: the returned object has ten numeric fields, with ten different names.
\<close>

theorem computeROI_field_count:
  "length (ROIParams_entries p) = 12 \<and>
   length (ROIResult_entries (computeROI p)) = 10 \<and>
   distinct (map fst (ROIResult_entries (computeROI p)))"
  by (simp add: ROIParams_entries_def ROIResult_entries_def)

text \<open>The returned object of the baseline scenario does not have twelve fields.\<close>

theorem computeROI_twelve_outputs_counterexample:
  "length (ROIResult_entries (computeROI baselineParams)) \<noteq> 12"
  by (simp add: ROIResult_entries_def)

section \<open>Signs of the results\<close>

text \<open>
  Claim C4, as amended. If every input field other than haasPrice is a number that is
  greater than or equal to zero, the substrate price is finite, and m2CalagePerYear and
  m2ThreeMmPerYear come out finite (no infinite input among their factors and no
  overflow), then every returned field other than euroNet is greater than or equal to
  zero.
\<close>

theorem computeROI_not_negative:
  assumes "list_all (\<lambda>(k, v). k = ''haasPrice'' \<or> valid v \<and> fle (lit 0) v)
             (ROIParams_entries p)"
    and "is_finite (substratePrice p)"
    and "is_finite (m2CalagePerYear (computeROI p))"
    and "is_finite (m2ThreeMmPerYear (computeROI p))"
  shows "list_all (\<lambda>(k, v). k = ''euroNet'' \<or> fle (lit 0) v)
           (ROIResult_entries (computeROI p))"
proof -
  let ?r = "computeROI p"
  have eqs:
    "jobsPerDay ?r = fmul (jobsPerShift p) (shiftsPerDay p)"
    "jobsPerYear ?r = fmul (jobsPerDay ?r) (daysPerYear p)"
    "m2PerStop ?r = fmul (webWidth p) (wastePerStopM p)"
    "m2CalagePerYear ?r = fmul (fmul (m2PerStop ?r) (stopsAvoidedPerJob p)) (jobsPerYear ?r)"
    "printedLengthPerYear ?r = fmul (printedLengthPerDay p) (daysPerYear p)"
    "m2ThreeMmPerYear ?r = fmul (lit (3 / 1000)) (printedLengthPerYear ?r)"
    "euroCalage ?r = fmul (m2CalagePerYear ?r) (substratePrice p)"
    "euroThreeMm ?r = fmul (m2ThreeMmPerYear ?r) (substratePrice p)"
    "euroTotal ?r = fadd (euroCalage ?r) (euroThreeMm ?r)"
    by (simp_all only: computeROI_def stopsAvoidedPerJob_def minutesPerDay_def
        printedLengthPerDay_def Let_def ROIResult.select_convs)
  from assms(1) have
    n: "not_negative (webWidth p)" "not_negative (jobsPerShift p)"
       "not_negative (shiftsPerDay p)" "not_negative (daysPerYear p)"
       "not_negative (stopsPerJobBaseline p)" "not_negative (reductionPercent p)"
       "not_negative (wastePerStopM p)" "not_negative (speedMPerMin p)"
       "not_negative (uptimePercent p)" "not_negative (hoursPerShift p)"
       "not_negative (substratePrice p)"
    by (simp_all add: ROIParams_entries_def not_negative_intro)
  have sa: "not_negative (stopsAvoidedPerJob p)"
    using n by (simp add: stopsAvoidedPerJob_def lit_values not_negative_fmul not_negative_fdiv)
  have pd: "not_negative (printedLengthPerDay p)"
    using n
    by (simp add: printedLengthPerDay_def minutesPerDay_def lit_values not_negative_lit
        not_negative_fmul not_negative_fdiv)
  have jd: "not_negative (jobsPerDay ?r)"
    unfolding eqs(1) using n by (simp add: not_negative_fmul)
  have jy: "not_negative (jobsPerYear ?r)"
    unfolding eqs(2) using jd n by (simp add: not_negative_fmul)
  have ms: "not_negative (m2PerStop ?r)"
    unfolding eqs(3) using n by (simp add: not_negative_fmul)
  have mc: "not_negative (m2CalagePerYear ?r)"
    unfolding eqs(4) using ms sa jy by (simp add: not_negative_fmul)
  have py: "not_negative (printedLengthPerYear ?r)"
    unfolding eqs(5) using pd n by (simp add: not_negative_fmul)
  have mt: "not_negative (m2ThreeMmPerYear ?r)"
    unfolding eqs(6) using py by (simp add: lit_values not_negative_lit not_negative_fmul)
  have ec: "not_negative (euroCalage ?r)"
    unfolding eqs(7) using mc n by (simp add: not_negative_fmul)
  have et: "not_negative (euroThreeMm ?r)"
    unfolding eqs(8) using mt n by (simp add: not_negative_fmul)
  have eo: "not_negative (euroTotal ?r)"
    unfolding eqs(9) using ec et by (simp add: not_negative_fadd)
  from assms(3) have f1: "is_finite (fmul (m2PerStop ?r) (stopsAvoidedPerJob p))"
    and fjy: "is_finite (jobsPerYear ?r)"
    unfolding eqs(4) by (auto dest: is_finite_fmul)
  from f1 have fms: "is_finite (m2PerStop ?r)"
    by (auto dest: is_finite_fmul)
  from fjy have fjd: "is_finite (jobsPerDay ?r)"
    unfolding eqs(2) by (auto dest: is_finite_fmul)
  from assms(4) have fpy: "is_finite (printedLengthPerYear ?r)"
    unfolding eqs(6) by (auto dest: is_finite_fmul)
  have nec: "euroCalage ?r \<noteq> NaN"
    unfolding eqs(7) using assms(3,2) by (rule fmul_finite_not_NaN)
  have net: "euroThreeMm ?r \<noteq> NaN"
    unfolding eqs(8) using assms(4,2) by (rule fmul_finite_not_NaN)
  have neo: "euroTotal ?r \<noteq> NaN"
    unfolding eqs(9) using ec et nec net by (rule fadd_not_NaN)
  have "fle (lit 0) (jobsPerDay ?r)" "fle (lit 0) (jobsPerYear ?r)"
    "fle (lit 0) (m2PerStop ?r)" "fle (lit 0) (m2CalagePerYear ?r)"
    "fle (lit 0) (printedLengthPerYear ?r)" "fle (lit 0) (m2ThreeMmPerYear ?r)"
    "fle (lit 0) (euroCalage ?r)" "fle (lit 0) (euroThreeMm ?r)"
    "fle (lit 0) (euroTotal ?r)"
    using jd jy ms mc py mt ec et eo fjd fjy fms assms(3,4) fpy nec net neo
    by (simp_all add: not_negative_fle is_finite_not_NaN)
  then show ?thesis
    by (simp add: ROIResult_entries_def)
qed

text \<open>The baseline input satisfies the hypotheses.\<close>

theorem computeROI_not_negative_witness:
  "list_all (\<lambda>(k, v). k = ''haasPrice'' \<or> valid v \<and> fle (lit 0) v)
     (ROIParams_entries baselineParams) \<and>
   is_finite (substratePrice baselineParams) \<and>
   is_finite (m2CalagePerYear (computeROI baselineParams)) \<and>
   is_finite (m2ThreeMmPerYear (computeROI baselineParams)) \<and>
   list_all (\<lambda>(k, v). k = ''euroNet'' \<or> fle (lit 0) v)
     (ROIResult_entries (computeROI baselineParams))"
proof -
  have h1: "list_all (\<lambda>(k, v). k = ''haasPrice'' \<or> valid v \<and> fle (lit 0) v)
     (ROIParams_entries baselineParams)"
    by (simp only: ROIParams_entries_def baselineParams_def ROIParams.select_convs lit_values)
      (simp add: valid_values sval_def del: valid.simps)
  have h2: "is_finite (substratePrice baselineParams)"
    by (simp only: roi_eval is_finite.simps)
  have h3: "is_finite (m2CalagePerYear (computeROI baselineParams))"
    by (simp only: roi_eval is_finite.simps)
  have h4: "is_finite (m2ThreeMmPerYear (computeROI baselineParams))"
    by (simp only: roi_eval is_finite.simps)
  from computeROI_not_negative [OF h1 h2 h3 h4] h1 h2 h3 h4 show ?thesis
    by simp
qed

text \<open>
  Without the hypotheses the claim fails. With the substrate price of the baseline
  replaced by -0.6, euroCalage is -178200. With inputs that are all greater than or equal
  to zero, a field can still be NaN, which is not greater than or equal to zero: with
  jobsPerShift = 2 ^ 1023 and daysPerYear = 0 the product jobsPerDay overflows to Infinity
  and jobsPerYear is NaN; with reductionPercent = 0 and an infinite substrate price,
  euroCalage is NaN; with an infinite hoursPerShift and daysPerYear = 0,
  printedLengthPerYear is NaN.
\<close>

theorem computeROI_negative_price_counterexample:
  "flt (euroCalage (computeROI (baselineParams\<lparr>substratePrice := lit (- (6 / 10))\<rparr>))) (lit 0) \<and>
   valid (Finite False (2 ^ 1023)) \<and> fle (lit 0) (Finite False (2 ^ 1023)) \<and>
   \<not> fle (lit 0) (jobsPerYear (computeROI
       (baselineParams\<lparr>jobsPerShift := Finite False (2 ^ 1023), daysPerYear := lit 0\<rparr>))) \<and>
   \<not> fle (lit 0) (euroCalage (computeROI
       (baselineParams\<lparr>reductionPercent := lit 0, substratePrice := Infinity False\<rparr>))) \<and>
   \<not> fle (lit 0) (printedLengthPerYear (computeROI
       (baselineParams\<lparr>hoursPerShift := Infinity False, daysPerYear := lit 0\<rparr>)))"
proof -
  have a: "euroCalage (computeROI (baselineParams\<lparr>substratePrice := lit (- (6 / 10))\<rparr>))
      = Finite True 178200"
    by (simp only: roi_eval more_ops)
  have b: "jobsPerYear (computeROI
       (baselineParams\<lparr>jobsPerShift := Finite False (2 ^ 1023), daysPerYear := lit 0\<rparr>))
     = NaN"
    by (simp only: roi_eval more_ops overflow_ops)
  have c: "valid (Finite False (2 ^ 1023))"
    by (simp only: valid.simps is_double_power2)
  have d: "euroCalage (computeROI
       (baselineParams\<lparr>reductionPercent := lit 0, substratePrice := Infinity False\<rparr>)) = NaN"
    by (simp only: roi_eval more_ops) (simp add: to_number_zero)
  have e: "printedLengthPerYear (computeROI
       (baselineParams\<lparr>hoursPerShift := Infinity False, daysPerYear := lit 0\<rparr>)) = NaN"
    by (simp only: roi_eval more_ops) simp
  show ?thesis
    unfolding a b d e using c by (simp add: lit_values sval_def del: valid.simps)
qed

section \<open>The self-test panel\<close>

text \<open>
  Claim C5. The self-test panel runs \<open>computeROI\<close> on the one fixed baseline input and
  compares exactly two returned fields, m2CalagePerYear and m2ThreeMmPerYear, with
  expected values that two literal formulas compute on their own (297000 and 71280),
  by the relative test |actual - expected| <= |expected| * 0.001; both tests pass.
\<close>

theorem TestPanel_passes:
  "TestPanel_tests =
     [approxEqual_default (m2CalagePerYear (computeROI baselineParams)) expected_m2CalagePerYear,
      approxEqual_default (m2ThreeMmPerYear (computeROI baselineParams)) expected_m2ThreeMmPerYear] \<and>
   approxEqual_default actual expected =
     fle (fabs (fsub actual expected)) (fmul (fabs expected) (lit (1 / 1000))) \<and>
   expected_m2CalagePerYear = lit 297000 \<and>
   expected_m2ThreeMmPerYear = lit 71280 \<and>
   TestPanel_tests = [True, True]"
proof -
  have a: "approxEqual_default (Finite False 297000) (Finite False 297000)"
    by (simp add: approxEqual_default_def approxEqual_def lit_values test_ops sval_def
        del: fmul.simps)
  have b: "approxEqual_default (Finite False 71280) (Finite False 71280)"
    by (simp add: approxEqual_default_def approxEqual_def lit_values test_ops sval_def
        del: fmul.simps)
  have "TestPanel_tests = [True, True]"
    using a b
    by (simp only: TestPanel_tests_def Let_def computeROI_baselineParams expected_values
        ROIResult.select_convs simp_thms)
  then show ?thesis
    by (simp only: TestPanel_tests_def Let_def approxEqual_default_def approxEqual_def
        expected_values lit_values simp_thms)
qed

section \<open>Zero reduction\<close>

text \<open>
  Claim C6, as amended. For every parameter object with reductionPercent = 0 whose
  stopsPerJobBaseline and substratePrice are finite and whose m2PerStop and jobsPerYear
  come out finite (no NaN or infinite input among their factors, and no overflow),
  stopsAvoidedPerJob = 0, m2CalagePerYear = 0 and euroCalage = 0.
\<close>

theorem computeROI_zero_reduction:
  assumes "feq (reductionPercent p) (lit 0)"
    and "is_finite (stopsPerJobBaseline p)"
    and "is_finite (m2PerStop (computeROI p))"
    and "is_finite (jobsPerYear (computeROI p))"
    and "is_finite (substratePrice p)"
  shows "feq (stopsAvoidedPerJob p) (lit 0) \<and>
         feq (m2CalagePerYear (computeROI p)) (lit 0) \<and>
         feq (euroCalage (computeROI p)) (lit 0)"
proof -
  have sa: "feq (stopsAvoidedPerJob p) (lit 0)"
    using assms(1,2) by (simp add: stopsAvoidedPerJob_def zero_fmul_right zero_fdiv)
  have mc: "m2CalagePerYear (computeROI p) =
      fmul (fmul (m2PerStop (computeROI p)) (stopsAvoidedPerJob p)) (jobsPerYear (computeROI p))"
    by (simp only: computeROI_def stopsAvoidedPerJob_def Let_def ROIResult.select_convs)
  have z: "feq (m2CalagePerYear (computeROI p)) (lit 0)"
    unfolding mc using sa assms(3,4) by (simp add: zero_fmul_left zero_fmul_right)
  have ec: "euroCalage (computeROI p) = fmul (m2CalagePerYear (computeROI p)) (substratePrice p)"
    by (simp only: computeROI_def Let_def ROIResult.select_convs)
  have "feq (euroCalage (computeROI p)) (lit 0)"
    unfolding ec using z assms(5) by (rule zero_fmul_left)
  with sa z show ?thesis by simp
qed

text \<open>The baseline with reductionPercent = 0.\<close>

theorem computeROI_zero_reduction_witness:
  "feq (reductionPercent (baselineParams\<lparr>reductionPercent := lit 0\<rparr>)) (lit 0) \<and>
   is_finite (stopsPerJobBaseline (baselineParams\<lparr>reductionPercent := lit 0\<rparr>)) \<and>
   is_finite (m2PerStop (computeROI (baselineParams\<lparr>reductionPercent := lit 0\<rparr>))) \<and>
   is_finite (jobsPerYear (computeROI (baselineParams\<lparr>reductionPercent := lit 0\<rparr>))) \<and>
   is_finite (substratePrice (baselineParams\<lparr>reductionPercent := lit 0\<rparr>)) \<and>
   feq (stopsAvoidedPerJob (baselineParams\<lparr>reductionPercent := lit 0\<rparr>)) (lit 0) \<and>
   feq (m2CalagePerYear (computeROI (baselineParams\<lparr>reductionPercent := lit 0\<rparr>))) (lit 0) \<and>
   feq (euroCalage (computeROI (baselineParams\<lparr>reductionPercent := lit 0\<rparr>))) (lit 0)"
proof -
  let ?p = "baselineParams\<lparr>reductionPercent := lit 0\<rparr>"
  have h1: "feq (reductionPercent ?p) (lit 0)"
    by (simp only: roi_eval) (simp add: sval_def)
  have h2: "is_finite (stopsPerJobBaseline ?p)"
    by (simp only: roi_eval is_finite.simps)
  have h3: "is_finite (m2PerStop (computeROI ?p))"
    by (simp only: roi_eval is_finite.simps)
  have h4: "is_finite (jobsPerYear (computeROI ?p))"
    by (simp only: roi_eval is_finite.simps)
  have h5: "is_finite (substratePrice ?p)"
    by (simp only: roi_eval is_finite.simps)
  from computeROI_zero_reduction [OF h1 h2 h3 h4 h5] h1 h2 h3 h4 h5
  show ?thesis by simp
qed

text \<open>
  The claim does not hold regardless of the other inputs: with reductionPercent = 0 and
  jobsPerShift = NaN (what \<open>parseInt\<close> makes of the entry \<open>.5\<close>), and also with the finite
  number jobsPerShift = 2 ^ 1023, whose product with 2 shifts overflows to Infinity,
  m2CalagePerYear is NaN.
\<close>

theorem computeROI_zero_reduction_counterexample:
  "\<not> feq (m2CalagePerYear (computeROI
       (baselineParams\<lparr>jobsPerShift := NaN, reductionPercent := lit 0\<rparr>))) (lit 0) \<and>
   valid (Finite False (2 ^ 1023)) \<and>
   \<not> feq (m2CalagePerYear (computeROI
       (baselineParams\<lparr>jobsPerShift := Finite False (2 ^ 1023), reductionPercent := lit 0\<rparr>)))
     (lit 0)"
proof -
  have a: "m2CalagePerYear (computeROI
       (baselineParams\<lparr>jobsPerShift := NaN, reductionPercent := lit 0\<rparr>)) = NaN"
    by (simp only: roi_eval more_ops fmul_NaN_right)
  have b: "m2CalagePerYear (computeROI
       (baselineParams\<lparr>jobsPerShift := Finite False (2 ^ 1023), reductionPercent := lit 0\<rparr>))
     = NaN"
    by (simp only: roi_eval more_ops overflow_ops)
  show ?thesis
    by (simp only: a b feq.simps valid.simps is_double_power2 simp_thms)
qed

section \<open>Zero operating days\<close>

text \<open>
  Claim C7, as amended. For every parameter object with daysPerYear = 0 whose substratePrice
  is finite, whose haasPrice is not NaN, and whose jobsPerDay, m2PerStop * stopsAvoidedPerJob
  and printedLengthPerDay come out finite (no NaN or infinite input among their factors,
  and no overflow): jobsPerYear, printedLengthPerYear, m2CalagePerYear, m2ThreeMmPerYear,
  euroCalage, euroThreeMm and euroTotal are 0, and euroNet equals -haasPrice exactly.
\<close>

theorem computeROI_zero_days:
  assumes "feq (daysPerYear p) (lit 0)"
    and "is_finite (jobsPerDay (computeROI p))"
    and "is_finite (fmul (m2PerStop (computeROI p)) (stopsAvoidedPerJob p))"
    and "is_finite (printedLengthPerDay p)"
    and "is_finite (substratePrice p)"
    and "valid (haasPrice p)" and "haasPrice p \<noteq> NaN"
  shows "feq (jobsPerYear (computeROI p)) (lit 0) \<and>
         feq (printedLengthPerYear (computeROI p)) (lit 0) \<and>
         feq (m2CalagePerYear (computeROI p)) (lit 0) \<and>
         feq (m2ThreeMmPerYear (computeROI p)) (lit 0) \<and>
         feq (euroCalage (computeROI p)) (lit 0) \<and>
         feq (euroThreeMm (computeROI p)) (lit 0) \<and>
         feq (euroTotal (computeROI p)) (lit 0) \<and>
         feq (euroNet (computeROI p)) (fneg (haasPrice p))"
proof -
  have eqs:
    "jobsPerYear (computeROI p) = fmul (jobsPerDay (computeROI p)) (daysPerYear p)"
    "m2CalagePerYear (computeROI p) =
      fmul (fmul (m2PerStop (computeROI p)) (stopsAvoidedPerJob p)) (jobsPerYear (computeROI p))"
    "printedLengthPerYear (computeROI p) = fmul (printedLengthPerDay p) (daysPerYear p)"
    "m2ThreeMmPerYear (computeROI p) = fmul (lit (3 / 1000)) (printedLengthPerYear (computeROI p))"
    "euroCalage (computeROI p) = fmul (m2CalagePerYear (computeROI p)) (substratePrice p)"
    "euroThreeMm (computeROI p) = fmul (m2ThreeMmPerYear (computeROI p)) (substratePrice p)"
    "euroTotal (computeROI p) = fadd (euroCalage (computeROI p)) (euroThreeMm (computeROI p))"
    "euroNet (computeROI p) = fsub (euroTotal (computeROI p)) (haasPrice p)"
    by (simp_all only: computeROI_def stopsAvoidedPerJob_def minutesPerDay_def
        printedLengthPerDay_def Let_def ROIResult.select_convs)
  have jy: "feq (jobsPerYear (computeROI p)) (lit 0)"
    unfolding eqs(1) using assms(2,1) by (rule zero_fmul_right)
  have py: "feq (printedLengthPerYear (computeROI p)) (lit 0)"
    unfolding eqs(3) using assms(4,1) by (rule zero_fmul_right)
  have mc: "feq (m2CalagePerYear (computeROI p)) (lit 0)"
    unfolding eqs(2) using assms(3) jy by (rule zero_fmul_right)
  have "is_finite (lit (3 / 1000))" by (simp add: lit_values)
  then have mt: "feq (m2ThreeMmPerYear (computeROI p)) (lit 0)"
    unfolding eqs(4) using py by (rule zero_fmul_right)
  have ec: "feq (euroCalage (computeROI p)) (lit 0)"
    unfolding eqs(5) using mc assms(5) by (rule zero_fmul_left)
  have et: "feq (euroThreeMm (computeROI p)) (lit 0)"
    unfolding eqs(6) using mt assms(5) by (rule zero_fmul_left)
  have eo: "feq (euroTotal (computeROI p)) (lit 0)"
    unfolding eqs(7) using ec et by (rule zero_fadd)
  have en: "feq (euroNet (computeROI p)) (fneg (haasPrice p))"
    unfolding eqs(8) using eo assms(6,7) by (rule zero_fsub)
  from jy py mc mt ec et eo en show ?thesis by simp
qed

text \<open>The baseline with daysPerYear = 0.\<close>

theorem computeROI_zero_days_witness:
  "feq (daysPerYear (baselineParams\<lparr>daysPerYear := lit 0\<rparr>)) (lit 0) \<and>
   is_finite (jobsPerDay (computeROI (baselineParams\<lparr>daysPerYear := lit 0\<rparr>))) \<and>
   is_finite (fmul (m2PerStop (computeROI (baselineParams\<lparr>daysPerYear := lit 0\<rparr>)))
                (stopsAvoidedPerJob (baselineParams\<lparr>daysPerYear := lit 0\<rparr>))) \<and>
   is_finite (printedLengthPerDay (baselineParams\<lparr>daysPerYear := lit 0\<rparr>)) \<and>
   is_finite (substratePrice (baselineParams\<lparr>daysPerYear := lit 0\<rparr>)) \<and>
   valid (haasPrice (baselineParams\<lparr>daysPerYear := lit 0\<rparr>)) \<and>
   haasPrice (baselineParams\<lparr>daysPerYear := lit 0\<rparr>) \<noteq> NaN \<and>
   feq (jobsPerYear (computeROI (baselineParams\<lparr>daysPerYear := lit 0\<rparr>))) (lit 0) \<and>
   feq (printedLengthPerYear (computeROI (baselineParams\<lparr>daysPerYear := lit 0\<rparr>))) (lit 0) \<and>
   feq (m2CalagePerYear (computeROI (baselineParams\<lparr>daysPerYear := lit 0\<rparr>))) (lit 0) \<and>
   feq (m2ThreeMmPerYear (computeROI (baselineParams\<lparr>daysPerYear := lit 0\<rparr>))) (lit 0) \<and>
   feq (euroCalage (computeROI (baselineParams\<lparr>daysPerYear := lit 0\<rparr>))) (lit 0) \<and>
   feq (euroThreeMm (computeROI (baselineParams\<lparr>daysPerYear := lit 0\<rparr>))) (lit 0) \<and>
   feq (euroTotal (computeROI (baselineParams\<lparr>daysPerYear := lit 0\<rparr>))) (lit 0) \<and>
   feq (euroNet (computeROI (baselineParams\<lparr>daysPerYear := lit 0\<rparr>)))
     (fneg (haasPrice (baselineParams\<lparr>daysPerYear := lit 0\<rparr>)))"
proof -
  let ?p = "baselineParams\<lparr>daysPerYear := lit 0\<rparr>"
  have h1: "feq (daysPerYear ?p) (lit 0)"
    by (simp only: roi_eval) (simp add: sval_def)
  have h2: "is_finite (jobsPerDay (computeROI ?p))"
    by (simp only: roi_eval is_finite.simps)
  have h3: "is_finite (fmul (m2PerStop (computeROI ?p)) (stopsAvoidedPerJob ?p))"
    by (simp only: roi_eval is_finite.simps)
  have h4: "is_finite (printedLengthPerDay ?p)"
    by (simp only: roi_eval is_finite.simps)
  have h5: "is_finite (substratePrice ?p)"
    by (simp only: roi_eval is_finite.simps)
  have h6: "valid (haasPrice ?p)"
    by (simp only: roi_eval valid_values)
  have h7: "haasPrice ?p \<noteq> NaN"
    by (simp only: roi_eval) simp
  from computeROI_zero_days [OF h1 h2 h3 h4 h5 h6 h7] h1 h2 h3 h4 h5 h6 h7
  show ?thesis by simp
qed

text \<open>
  The claim does not hold for every parameter object: with daysPerYear = 0 and
  jobsPerShift = NaN, and also with the finite number jobsPerShift = 2 ^ 1023, whose
  product with 2 shifts overflows to Infinity, jobsPerYear is NaN.
\<close>

theorem computeROI_zero_days_counterexample:
  "\<not> feq (jobsPerYear (computeROI
       (baselineParams\<lparr>jobsPerShift := NaN, daysPerYear := lit 0\<rparr>))) (lit 0) \<and>
   valid (Finite False (2 ^ 1023)) \<and>
   \<not> feq (jobsPerYear (computeROI
       (baselineParams\<lparr>jobsPerShift := Finite False (2 ^ 1023), daysPerYear := lit 0\<rparr>)))
     (lit 0)"
proof -
  have a: "jobsPerYear (computeROI
       (baselineParams\<lparr>jobsPerShift := NaN, daysPerYear := lit 0\<rparr>)) = NaN"
    by (simp only: roi_eval more_ops fmul.simps)
  have b: "jobsPerYear (computeROI
       (baselineParams\<lparr>jobsPerShift := Finite False (2 ^ 1023), daysPerYear := lit 0\<rparr>))
     = NaN"
    by (simp only: roi_eval more_ops overflow_ops)
  show ?thesis
    by (simp only: a b feq.simps valid.simps is_double_power2 simp_thms)
qed

section \<open>Linearity\<close>

text \<open>
  Claim C8, as amended. Scaling webWidth, or wastePerStopM, by a factor \<open>k\<close> scales
  m2PerStop by exactly \<open>k\<close> whenever the product of \<open>k\<close> with that input and the product
  webWidth * wastePerStopM are exact (computed without rounding); scaling substratePrice
  by \<open>k\<close> scales euroTotal by exactly \<open>k\<close> whenever the products of \<open>k\<close>, m2CalagePerYear
  and m2ThreeMmPerYear with the price and with the scaled price, and the sum euroCalage +
  euroThreeMm, are exact. Where an operation rounds, the two sides may differ in the
  last digits.
\<close>

theorem computeROI_linearity:
  "(exact_mul k (webWidth p) \<and> exact_mul (webWidth p) (wastePerStopM p) \<longrightarrow>
      feq (m2PerStop (computeROI (p\<lparr>webWidth := fmul k (webWidth p)\<rparr>)))
          (fmul k (m2PerStop (computeROI p)))) \<and>
   (exact_mul k (wastePerStopM p) \<and> exact_mul (webWidth p) (wastePerStopM p) \<longrightarrow>
      feq (m2PerStop (computeROI (p\<lparr>wastePerStopM := fmul k (wastePerStopM p)\<rparr>)))
          (fmul k (m2PerStop (computeROI p)))) \<and>
   (valid k \<and> exact_mul k (substratePrice p) \<and>
    exact_mul (m2CalagePerYear (computeROI p)) (substratePrice p) \<and>
    exact_mul (m2ThreeMmPerYear (computeROI p)) (substratePrice p) \<and>
    exact_mul (m2CalagePerYear (computeROI p)) (fmul k (substratePrice p)) \<and>
    exact_mul (m2ThreeMmPerYear (computeROI p)) (fmul k (substratePrice p)) \<and>
    exact_add (euroCalage (computeROI p)) (euroThreeMm (computeROI p)) \<longrightarrow>
      feq (euroTotal (computeROI (p\<lparr>substratePrice := fmul k (substratePrice p)\<rparr>)))
          (fmul k (euroTotal (computeROI p))))"
proof (intro conjI impI)
  assume "exact_mul k (webWidth p) \<and> exact_mul (webWidth p) (wastePerStopM p)"
  then have "feq (fmul (fmul k (webWidth p)) (wastePerStopM p))
                 (fmul k (fmul (webWidth p) (wastePerStopM p)))"
    by (simp add: scale_left)
  then show "feq (m2PerStop (computeROI (p\<lparr>webWidth := fmul k (webWidth p)\<rparr>)))
                 (fmul k (m2PerStop (computeROI p)))"
    by (simp add: computeROI_def Let_def)
next
  assume "exact_mul k (wastePerStopM p) \<and> exact_mul (webWidth p) (wastePerStopM p)"
  then have "feq (fmul (webWidth p) (fmul k (wastePerStopM p)))
                 (fmul k (fmul (webWidth p) (wastePerStopM p)))"
    by (simp add: scale_right)
  then show "feq (m2PerStop (computeROI (p\<lparr>wastePerStopM := fmul k (wastePerStopM p)\<rparr>)))
                 (fmul k (m2PerStop (computeROI p)))"
    by (simp add: computeROI_def Let_def)
next
  let ?c = "m2CalagePerYear (computeROI p)" and ?t = "m2ThreeMmPerYear (computeROI p)"
  let ?p' = "p\<lparr>substratePrice := fmul k (substratePrice p)\<rparr>"
  assume a: "valid k \<and> exact_mul k (substratePrice p) \<and>
    exact_mul ?c (substratePrice p) \<and> exact_mul ?t (substratePrice p) \<and>
    exact_mul ?c (fmul k (substratePrice p)) \<and> exact_mul ?t (fmul k (substratePrice p)) \<and>
    exact_add (euroCalage (computeROI p)) (euroThreeMm (computeROI p))"
  then have "exact_add (fmul ?c (substratePrice p)) (fmul ?t (substratePrice p))"
    by (simp only: computeROI_euro)
  with a have "feq (fadd (fmul ?c (fmul k (substratePrice p))) (fmul ?t (fmul k (substratePrice p))))
                   (fmul k (fadd (fmul ?c (substratePrice p)) (fmul ?t (substratePrice p))))"
    by (simp add: scale_sum)
  moreover have "euroTotal (computeROI ?p') =
      fadd (fmul ?c (fmul k (substratePrice p))) (fmul ?t (fmul k (substratePrice p)))"
    by (simp add: computeROI_euro computeROI_substratePrice_update)
  moreover have "euroTotal (computeROI p) =
      fadd (fmul ?c (substratePrice p)) (fmul ?t (substratePrice p))"
    by (simp only: computeROI_euro)
  ultimately show "feq (euroTotal (computeROI ?p')) (fmul k (euroTotal (computeROI p)))"
    by simp
qed

text \<open>Doubling each of the three inputs of \<open>exactParams\<close>.\<close>

theorem computeROI_linearity_witness:
  "(exact_mul (lit 2) (webWidth exactParams) \<and>
    exact_mul (webWidth exactParams) (wastePerStopM exactParams) \<and>
    exact_mul (lit 2) (wastePerStopM exactParams) \<and>
    valid (lit 2) \<and> exact_mul (lit 2) (substratePrice exactParams) \<and>
    exact_mul (m2CalagePerYear (computeROI exactParams)) (substratePrice exactParams) \<and>
    exact_mul (m2ThreeMmPerYear (computeROI exactParams)) (substratePrice exactParams) \<and>
    exact_mul (m2CalagePerYear (computeROI exactParams))
      (fmul (lit 2) (substratePrice exactParams)) \<and>
    exact_mul (m2ThreeMmPerYear (computeROI exactParams))
      (fmul (lit 2) (substratePrice exactParams)) \<and>
    exact_add (euroCalage (computeROI exactParams)) (euroThreeMm (computeROI exactParams))) \<and>
   feq (m2PerStop (computeROI
          (exactParams\<lparr>webWidth := fmul (lit 2) (webWidth exactParams)\<rparr>)))
       (fmul (lit 2) (m2PerStop (computeROI exactParams))) \<and>
   feq (m2PerStop (computeROI
          (exactParams\<lparr>wastePerStopM := fmul (lit 2) (wastePerStopM exactParams)\<rparr>)))
       (fmul (lit 2) (m2PerStop (computeROI exactParams))) \<and>
   feq (euroTotal (computeROI
          (exactParams\<lparr>substratePrice := fmul (lit 2) (substratePrice exactParams)\<rparr>)))
       (fmul (lit 2) (euroTotal (computeROI exactParams)))"
proof -
  have f: "webWidth exactParams = Finite False (1 / 2)"
    "wastePerStopM exactParams = Finite False 100"
    "substratePrice exactParams = Finite False (1 / 2)"
    "m2CalagePerYear (computeROI exactParams) = Finite False 450000"
    "m2ThreeMmPerYear (computeROI exactParams) = Finite False 71280"
    "euroCalage (computeROI exactParams) = Finite False 225000"
    "euroThreeMm (computeROI exactParams) = Finite False 35640"
    by (simp_all only: exactParams_def roi_eval exact_ops)
  have h: "exact_mul (lit 2) (webWidth exactParams) \<and>
    exact_mul (webWidth exactParams) (wastePerStopM exactParams) \<and>
    exact_mul (lit 2) (wastePerStopM exactParams) \<and>
    valid (lit 2) \<and> exact_mul (lit 2) (substratePrice exactParams) \<and>
    exact_mul (m2CalagePerYear (computeROI exactParams)) (substratePrice exactParams) \<and>
    exact_mul (m2ThreeMmPerYear (computeROI exactParams)) (substratePrice exactParams) \<and>
    exact_mul (m2CalagePerYear (computeROI exactParams))
      (fmul (lit 2) (substratePrice exactParams)) \<and>
    exact_mul (m2ThreeMmPerYear (computeROI exactParams))
      (fmul (lit 2) (substratePrice exactParams)) \<and>
    exact_add (euroCalage (computeROI exactParams)) (euroThreeMm (computeROI exactParams))"
    by (simp only: f lit_values exact_ops) (simp add: is_double_values sval_def)
  from computeROI_linearity [of "lit 2" exactParams] h show ?thesis
    by blast
qed

text \<open>
  Scaling by any factor is not exact: with a web width of 0.2 m and 100 m of waste per
  stop, m2PerStop is 20; three times the width gives 60.00000000000001, not 60.
\<close>

theorem computeROI_linearity_counterexample:
  "\<not> feq (m2PerStop (computeROI
            (roundingParams\<lparr>webWidth := fmul (lit 3) (webWidth roundingParams)\<rparr>)))
         (fmul (lit 3) (m2PerStop (computeROI roundingParams)))"
proof -
  have "m2PerStop (computeROI
          (roundingParams\<lparr>webWidth := fmul (lit 3) (webWidth roundingParams)\<rparr>))
      = Finite False (8444249301319681 / 140737488355328)"
    by (simp only: roundingParams_def roi_eval rounding_ops)
  moreover have "fmul (lit 3) (m2PerStop (computeROI roundingParams)) = Finite False 60"
    by (simp only: roundingParams_def roi_eval rounding_ops)
  ultimately show ?thesis
    by (simp add: sval_def)
qed

section \<open>Determinism\<close>

text \<open>
  Claim C9. \<open>computeROI\<close> is deterministic and no hidden state influences its result:
  whatever is bound outside the function when it is invoked, the call \<open>computeROI(p)\<close>
  returns, and what it returns is the record that the formulas give for \<open>p\<close>. So two
  invocations on the same \<open>p\<close> yield identical results in any two states \<open>g\<close> and \<open>g'\<close> of
  the environment, in particular when \<open>g'\<close> is what the first invocation, or anything
  that ran between the two, has left behind.
\<close>

theorem computeROI_deterministic:
  "call g computeROI_source [object_of (ROIParams_entries p)]
     = Some (object_of (ROIResult_entries (computeROI p))) \<and>
   call g' computeROI_source [object_of (ROIParams_entries p)]
     = call g computeROI_source [object_of (ROIParams_entries p)]"
  by (simp add: call_def computeROI_source_def object_of_def ROIParams_entries_def
      ROIResult_entries_def computeROI_def Let_def)

text \<open>
  The baseline scenario, invoked where every name is bound to NaN outside the function
  and invoked where no name is bound at all.
\<close>

theorem computeROI_deterministic_witness:
  "call (\<lambda>x. Some (Number NaN)) computeROI_source [object_of (ROIParams_entries baselineParams)]
     = Some (Object
         [(''jobsPerDay'', Number (Finite False 12)),
          (''jobsPerYear'', Number (Finite False 3000)),
          (''m2PerStop'', Number (Finite False 33)),
          (''m2CalagePerYear'', Number (Finite False 297000)),
          (''printedLengthPerYear'', Number (Finite False 23760000)),
          (''m2ThreeMmPerYear'', Number (Finite False 71280)),
          (''euroCalage'', Number (Finite False 178200)),
          (''euroThreeMm'', Number (Finite False 42768)),
          (''euroTotal'', Number (Finite False 220968)),
          (''euroNet'', Number (Finite False 200968))]) \<and>
   call (\<lambda>x. None) computeROI_source [object_of (ROIParams_entries baselineParams)]
     = call (\<lambda>x. Some (Number NaN)) computeROI_source
         [object_of (ROIParams_entries baselineParams)]"
  using computeROI_deterministic [of "\<lambda>x. Some (Number NaN)" baselineParams "\<lambda>x. None"]
  by (simp only: computeROI_baselineParams ROIResult_entries_def object_of_def
      ROIResult.select_convs list.map prod.case)

section \<open>The tolerance test against zero\<close>

text \<open>
  Claim C10. With the default tolerance, \<open>approxEqual(actual, 0)\<close> is true exactly when
  \<open>actual\<close> equals zero (\<open>actual === 0\<close>), for every number \<open>actual\<close>: the tolerance is
  \<open>|0| * 0.001 = 0\<close>, and no absolute epsilon is added to it.
\<close>

theorem approxEqual_zero:
  "valid actual \<Longrightarrow> approxEqual_default actual (lit 0) = feq actual (lit 0)"
proof (cases actual)
  case NaN
  then show ?thesis
    by (simp add: approxEqual_default_def approxEqual_def fsub_def lit_values)
next
  case (Infinity s)
  then show ?thesis
    by (simp add: approxEqual_default_def approxEqual_def fsub_def lit_values to_number_zero)
next
  case (Finite s m)
  assume v: "valid actual"
  with Finite have d: "is_double m" by simp
  then have m0: "0 \<le> m" by (simp add: is_double_def)
  show ?thesis
  proof (cases "m = 0")
    case True
    with Finite show ?thesis
      by (simp add: approxEqual_default_def approxEqual_def fsub_def lit_values
          to_number_zero sval_def)
  next
    case False
    with m0 have "0 < m" by simp
    then have "fsub actual (lit 0) = Finite s m"
      using Finite d by (simp add: fsub_def lit_values sval_def to_number_is_double)
    then show ?thesis
      using Finite \<open>0 < m\<close>
      by (simp add: approxEqual_default_def approxEqual_def lit_values to_number_zero sval_def)
  qed
qed

text \<open>A value as small as \<open>2 ^ -100\<close> already fails the test against zero.\<close>

theorem approxEqual_zero_witness:
  "valid (Finite False (1 / 2 ^ 100)) \<and>
   \<not> approxEqual_default (Finite False (1 / 2 ^ 100)) (lit 0)"
proof -
  have v: "valid (Finite False (1 / 2 ^ 100))"
    by (simp add: is_double_def num_eval)
  show ?thesis
    using approxEqual_zero [OF v] v by (simp add: lit_values sval_def)
qed

end
